theory Spec2Isabelle
  imports Main "HOL-Library.Char_ord" "HOL-Library.List_Lexorder"
begin

section \<open>Go values: errors and panics\<close>

text \<open>
  A Go \<^verbatim>\<open>error\<close> is modelled by its message (what \<^verbatim>\<open>err.Error()\<close> returns);
  \<^verbatim>\<open>nil\<close> is \<open>None\<close>. A Go function either returns its results or panics, and a
  run-time panic is a value of its own, so that an index out of range or a call through a
  nil interface is a branch of the model.
\<close>

type_synonym error = "string option"

datatype 'a outcome = Return 'a | Panic string

text \<open>\<^verbatim>\<open>xs[i]\<close> on a slice: a run-time panic out of range.\<close>

definition index :: "'a list \<Rightarrow> nat \<Rightarrow> 'a outcome" where
  "index xs i = (if i < length xs then Return (xs ! i) else Panic ''index out of range'')"

section \<open>The composite identity (resource_lxd_built_image.go, lines 367-389)\<close>

record builtImageID =
  remote :: string
  fingerprint :: string

definition newbuiltImageID :: "string \<Rightarrow> string \<Rightarrow> builtImageID" where
  "newbuiltImageID r f = \<lparr>remote = r, fingerprint = f\<rparr>"

text \<open>
  \<^verbatim>\<open>strings.SplitN(s, sep, n)\<close> for a one-byte separator and \<open>n \<ge> 0\<close>: at most \<open>n\<close>
  pieces, the last one being the unsplit remainder.
\<close>

fun SplitN :: "string \<Rightarrow> char \<Rightarrow> nat \<Rightarrow> string list" where
  "SplitN s sep 0 = []"
| "SplitN s sep (Suc 0) = [s]"
| "SplitN s sep (Suc (Suc n)) =
     (if sep \<in> set s
      then takeWhile (\<lambda>c. c \<noteq> sep) s # SplitN (tl (dropWhile (\<lambda>c. c \<noteq> sep) s)) sep (Suc n)
      else [s])"

text \<open>
  The struct literal evaluates \<^verbatim>\<open>parts[0]\<close>, then \<^verbatim>\<open>parts[1]\<close>; either index
  expression panics when it is out of range.
\<close>

definition newbuiltImageIDFromResourceID :: "string \<Rightarrow> builtImageID outcome" where
  "newbuiltImageIDFromResourceID ident =
     (let parts = SplitN ident (CHR ''/'') 2 in
      case index parts 0 of
        Panic m \<Rightarrow> Panic m
      | Return r \<Rightarrow>
          (case index parts 1 of
             Panic m \<Rightarrow> Panic m
           | Return f \<Rightarrow> Return \<lparr>remote = r, fingerprint = f\<rparr>))"

text \<open>\<^verbatim>\<open>fmt.Sprintf("%s/%s", id.remote, id.fingerprint)\<close>\<close>

definition resourceID :: "builtImageID \<Rightarrow> string" where
  "resourceID ident = remote ident @ ''/'' @ fingerprint ident"

section \<open>Data of the image store API\<close>

text \<open>
  The structs of \<^verbatim>\<open>github.com/lxc/lxd/shared/api\<close> and of the lxd client, with the fields
  this file reads or writes. \<^verbatim>\<open>api.ImageAliasesEntry\<close> has the name of
  \<^verbatim>\<open>api.ImageAlias\<close> and a target fingerprint; \<^verbatim>\<open>api.ImageAliasesPost\<close> wraps an entry.
  A file handle (\<^verbatim>\<open>*os.File\<close>) is named by the path it was opened on, and an
  \<^verbatim>\<open>io.ReadCloser\<close> variable holds a handle or nil (\<open>None\<close>).
\<close>

record ImageAlias =
  Name :: string

record ImageAliasesEntry = ImageAlias +
  Target :: string

record Image =
  Aliases :: "ImageAlias list"
  CreatedAt :: int

record ImagesPost =
  Filename :: string

record ImageCreateArgs =
  MetaFile :: "string option"
  MetaName :: string
  RootfsFile :: "string option"
  RootfsName :: string

text \<open>
  An asynchronous operation of the store: what waiting for it returns, and the
  \<^verbatim>\<open>"fingerprint"\<close> entry of its metadata when that entry is a string.
\<close>

record Operation =
  op_Wait :: error
  op_fingerprint :: "string option"

text \<open>
  The client interface (\<^verbatim>\<open>lxd.ContainerServer\<close>, \<^verbatim>\<open>lxd.ImageServer\<close>): the methods
  this file calls, as functions on the state \<open>'s\<close> of the remote store. The store is a
  parameter of the model: every theorem below holds for every store behaviour. Lookups
  read the state; the four mutating calls return a new one.
\<close>

record 's ContainerServer =
  GetImage :: "string \<Rightarrow> 's \<Rightarrow> string + Image"
  GetImageAlias :: "string \<Rightarrow> 's \<Rightarrow> ImageAliasesEntry option \<times> error"
  GetImageAliases :: "'s \<Rightarrow> string + ImageAliasesEntry list"
  CreateImage :: "ImagesPost \<Rightarrow> ImageCreateArgs \<Rightarrow> 's \<Rightarrow> (string + Operation) \<times> 's"
  DeleteImage :: "string \<Rightarrow> 's \<Rightarrow> (string + Operation) \<times> 's"
  CreateImageAlias :: "ImageAliasesEntry \<Rightarrow> 's \<Rightarrow> error \<times> 's"
  DeleteImageAlias :: "string \<Rightarrow> 's \<Rightarrow> error \<times> 's"

section \<open>The resource data and the provider\<close>

text \<open>
  \<^verbatim>\<open>schema.ResourceData\<close>: the identity and the fields this file gets and sets.
  \<open>d_aliases_old\<close> is the prior value that \<^verbatim>\<open>d.GetChange("aliases")\<close> returns first;
  \<open>d_copied_aliases\<close> is what \<^verbatim>\<open>d.Get("copied_aliases")\<close> returns (the key is read by
  Read; the schema of lines 30-61 does not declare it, and its value is taken as given).
\<close>

record ResourceData =
  d_Id :: string
  d_template :: string
  d_remote :: string
  d_fingerprint :: string
  d_aliases_old :: "string list"
  d_aliases :: "string list"
  d_copied_aliases :: "string list"
  d_created_at :: int

text \<open>
  The provider type \<^verbatim>\<open>lxdProvider\<close> is declared outside the files at hand; its three
  methods used here are parameters. A connection attempt gives an error or a client.
\<close>

record 's lxdProvider =
  selectRemote :: "ResourceData \<Rightarrow> string"
  GetContainerServer :: "string \<Rightarrow> string + 's ContainerServer"
  GetImageServer :: "string \<Rightarrow> string + 's ContainerServer"

text \<open>
  The parameter \<^verbatim>\<open>meta interface{}\<close> of the CRUD functions: Terraform passes the provider;
  line 181 of Create stores an opened file in the same variable.
\<close>

datatype 's meta = Provider "'s lxdProvider" | OsFile string

text \<open>The type assertion \<^verbatim>\<open>meta.(*lxdProvider)\<close> panics on any other dynamic type.\<close>

definition assert_lxdProvider :: "'s meta \<Rightarrow> 's lxdProvider outcome" where
  "assert_lxdProvider m =
     (case m of
        Provider p \<Rightarrow> Return p
      | OsFile f \<Rightarrow> Panic ''interface conversion: interface {} is *os.File, not *lxd.lxdProvider'')"

section \<open>The observable world: the store and the trace of effects\<close>

text \<open>
  Every call to the store, every file operation and every printed line is appended to a
  trace, oldest first. An alias call is recorded with the error it returned.
\<close>

datatype event =
    Call_GetImage string
  | Call_GetImageAlias string
  | Call_GetImageAliases
  | Call_CreateImage "string option" "string option"
  | Call_DeleteImage string
  | Call_CreateImageAlias string string error
  | Call_DeleteImageAlias string error
  | Op_Wait
  | Os_WriteFile string string
  | Cmd_Start "string list"
  | Os_Open string
  | File_Close string
  | Os_Remove string
  | Os_RemoveAll string
  | Log string
  | Println string

record 's world =
  store :: 's
  trace :: "event list"

definition emit :: "event \<Rightarrow> 's world \<Rightarrow> 's world" where
  "emit e w = w\<lparr>trace := trace w @ [e]\<rparr>"

definition call_GetImage ::
  "'s ContainerServer \<Rightarrow> string \<Rightarrow> 's world \<Rightarrow> (string + Image) \<times> 's world" where
  "call_GetImage c fp w = (GetImage c fp (store w), emit (Call_GetImage fp) w)"

definition call_GetImageAlias ::
  "'s ContainerServer \<Rightarrow> string \<Rightarrow> 's world \<Rightarrow> ImageAliasesEntry option \<times> 's world" where
  "call_GetImageAlias c name w =
     (fst (GetImageAlias c name (store w)), emit (Call_GetImageAlias name) w)"

definition call_GetImageAliases ::
  "'s ContainerServer \<Rightarrow> 's world \<Rightarrow> (string + ImageAliasesEntry list) \<times> 's world" where
  "call_GetImageAliases c w = (GetImageAliases c (store w), emit Call_GetImageAliases w)"

definition call_CreateImage ::
  "'s ContainerServer \<Rightarrow> ImagesPost \<Rightarrow> ImageCreateArgs \<Rightarrow> 's world
     \<Rightarrow> (string + Operation) \<times> 's world" where
  "call_CreateImage c post args w =
     (case CreateImage c post args (store w) of
        (r, s') \<Rightarrow>
          (r, \<lparr>store = s', trace = trace w @ [Call_CreateImage (MetaFile args) (RootfsFile args)]\<rparr>))"

definition call_DeleteImage ::
  "'s ContainerServer \<Rightarrow> string \<Rightarrow> 's world \<Rightarrow> (string + Operation) \<times> 's world" where
  "call_DeleteImage c fp w =
     (case DeleteImage c fp (store w) of
        (r, s') \<Rightarrow> (r, \<lparr>store = s', trace = trace w @ [Call_DeleteImage fp]\<rparr>))"

definition call_CreateImageAlias ::
  "'s ContainerServer \<Rightarrow> ImageAliasesEntry \<Rightarrow> 's world \<Rightarrow> error \<times> 's world" where
  "call_CreateImageAlias c req w =
     (case CreateImageAlias c req (store w) of
        (err, s') \<Rightarrow>
          (err, \<lparr>store = s', trace = trace w @ [Call_CreateImageAlias (Name req) (Target req) err]\<rparr>))"

definition call_DeleteImageAlias ::
  "'s ContainerServer \<Rightarrow> string \<Rightarrow> 's world \<Rightarrow> error \<times> 's world" where
  "call_DeleteImageAlias c name w =
     (case DeleteImageAlias c name (store w) of
        (err, s') \<Rightarrow> (err, \<lparr>store = s', trace = trace w @ [Call_DeleteImageAlias name err]\<rparr>))"

section \<open>Sets of strings and binary search\<close>

text \<open>
  \<^verbatim>\<open>schema.Set\<close> with \<^verbatim>\<open>schema.HashString\<close> (Terraform's helper library): a set of
  strings, kept here as a list without duplicates. \<^verbatim>\<open>List()\<close> returns the elements in the
  order of their hash codes; the key function \<open>h\<close> that fixes this order is a parameter.
\<close>

definition NewSet :: "string list \<Rightarrow> string list" where
  "NewSet items = remdups items"

definition Contains :: "string list \<Rightarrow> string \<Rightarrow> bool" where
  "Contains s x = (x \<in> set s)"

definition Difference :: "string list \<Rightarrow> string list \<Rightarrow> string list" where
  "Difference s other = filter (\<lambda>x. \<not> Contains other x) s"

definition List_of :: "(string \<Rightarrow> 'k::linorder) \<Rightarrow> string list \<Rightarrow> string list" where
  "List_of h s = sort_key h s"

text \<open>
  \<^verbatim>\<open>sort.Search(n, f)\<close> of the Go library: the loop
  \<^verbatim>\<open>for i < j { h := (i+j)/2; if !f(h) { i = h + 1 } else { j = h } }; return i\<close>
  started at \<open>i = 0\<close>, \<open>j = n\<close>. \<^verbatim>\<open>sort.SearchStrings(a, x)\<close> searches with
  \<^verbatim>\<open>a[i] >= x\<close>.
\<close>

function Search_loop :: "(nat \<Rightarrow> bool) \<Rightarrow> nat \<Rightarrow> nat \<Rightarrow> nat" where
  "Search_loop f i j =
     (if i < j
      then (if \<not> f ((i + j) div 2)
            then Search_loop f ((i + j) div 2 + 1) j
            else Search_loop f i ((i + j) div 2))
      else i)"
  by pat_completeness auto
termination
  by (relation "measure (\<lambda>(f, i, j). j - i)") auto

declare Search_loop.simps [simp del]

definition Search :: "nat \<Rightarrow> (nat \<Rightarrow> bool) \<Rightarrow> nat" where
  "Search n f = Search_loop f 0 n"

definition SearchStrings :: "string list \<Rightarrow> string \<Rightarrow> nat" where
  "SearchStrings a x = Search (length a) (\<lambda>i. a ! i \<ge> x)"

section \<open>The alias reconciler at creation (lines 391-439)\<close>

definition GetExistingAliases ::
  "string list \<Rightarrow> ImageAliasesEntry list \<Rightarrow> ImageAliasesEntry list" where
  "GetExistingAliases aliases allAliases =
     filter (\<lambda>a. let name = Name a; pos = SearchStrings aliases name
                 in pos < length aliases \<and> aliases ! pos = name) allAliases"

text \<open>The loop of lines 409-414: a failed delete is printed and the loop goes on.\<close>

fun deleteExisting ::
  "'s ContainerServer \<Rightarrow> ImageAliasesEntry list \<Rightarrow> 's world \<Rightarrow> 's world" where
  "deleteExisting client [] w = w"
| "deleteExisting client (a # rest) w =
     (case call_DeleteImageAlias client (Name a) w of
        (None, w1) \<Rightarrow> deleteExisting client rest w1
      | (Some err, w1) \<Rightarrow>
          deleteExisting client rest (emit (Println (''Failed to remove alias '' @ Name a)) w1))"

text \<open>The loop of lines 416-424: a failed create is printed and the loop goes on.\<close>

fun createAliases ::
  "'s ContainerServer \<Rightarrow> ImageAlias list \<Rightarrow> string \<Rightarrow> 's world \<Rightarrow> 's world" where
  "createAliases client [] fp w = w"
| "createAliases client (a # rest) fp w =
     (case call_CreateImageAlias client \<lparr>Name = Name a, Target = fp\<rparr> w of
        (None, w1) \<Rightarrow> createAliases client rest fp w1
      | (Some err, w1) \<Rightarrow>
          createAliases client rest fp (emit (Println (''Failed to create alias '' @ Name a)) w1))"

definition ensureImageAliases ::
  "'s ContainerServer \<Rightarrow> ImageAlias list \<Rightarrow> string \<Rightarrow> 's world \<Rightarrow> error \<times> 's world" where
  "ensureImageAliases client aliases fp w =
     (if length aliases = 0 then (None, w)
      else
        let names = sort (map Name aliases) in
        case call_GetImageAliases client w of
          (Inl err, w1) \<Rightarrow> (Some err, w1)
        | (Inr resp, w1) \<Rightarrow>
            (let w2 = deleteExisting client (GetExistingAliases names resp) w1;
                 w3 = createAliases client aliases fp w2
             in (None, w3)))"

section \<open>Update, Delete, Exists and Read (lines 241-365)\<close>

text \<open>The loop of lines 258-264: the first failing delete ends Update with its error.\<close>

fun deleteRemoved :: "'s ContainerServer \<Rightarrow> string list \<Rightarrow> 's world \<Rightarrow> error \<times> 's world" where
  "deleteRemoved server [] w = (None, w)"
| "deleteRemoved server (a # rest) w =
     (case call_DeleteImageAlias server a w of
        (Some err, w1) \<Rightarrow> (Some err, w1)
      | (None, w1) \<Rightarrow> deleteRemoved server rest w1)"

text \<open>The loop of lines 266-277: the first failing create ends Update with its error.\<close>

fun addNew ::
  "'s ContainerServer \<Rightarrow> string \<Rightarrow> string list \<Rightarrow> 's world \<Rightarrow> error \<times> 's world" where
  "addNew server fp [] w = (None, w)"
| "addNew server fp (a # rest) w =
     (case call_CreateImageAlias server \<lparr>Name = a, Target = fp\<rparr> w of
        (Some err, w1) \<Rightarrow> (Some err, w1)
      | (None, w1) \<Rightarrow> addNew server fp rest w1)"

definition resourceLxdBuiltImageUpdate ::
  "(string \<Rightarrow> 'k::linorder) \<Rightarrow> ResourceData \<Rightarrow> 's meta \<Rightarrow> 's world
     \<Rightarrow> error outcome \<times> 's world" where
  "resourceLxdBuiltImageUpdate h d m w =
     (case assert_lxdProvider m of
        Panic msg \<Rightarrow> (Panic msg, w)
      | Return p \<Rightarrow>
          (case GetContainerServer p (selectRemote p d) of
             Inl err \<Rightarrow> (Return (Some err), w)
           | Inr server \<Rightarrow>
               (case newbuiltImageIDFromResourceID (d_Id d) of
                  Panic msg \<Rightarrow> (Panic msg, w)
                | Return ident \<Rightarrow>
                    if d_aliases_old d \<noteq> d_aliases d
                    then
                      (let oldSet = NewSet (d_aliases_old d);
                           newSet = NewSet (d_aliases d);
                           aliasesToRemove = Difference oldSet newSet;
                           aliasesToAdd = Difference newSet oldSet
                       in case deleteRemoved server (List_of h aliasesToRemove) w of
                            (Some err, w1) \<Rightarrow> (Return (Some err), w1)
                          | (None, w1) \<Rightarrow>
                              (case addNew server (fingerprint ident) (List_of h aliasesToAdd) w1 of
                                 (Some err, w2) \<Rightarrow> (Return (Some err), w2)
                               | (None, w2) \<Rightarrow> (Return None, w2)))
                    else (Return None, w))))"

definition resourceLxdBuiltImageDelete ::
  "ResourceData \<Rightarrow> 's meta \<Rightarrow> 's world \<Rightarrow> error outcome \<times> 's world" where
  "resourceLxdBuiltImageDelete d m w =
     (case assert_lxdProvider m of
        Panic msg \<Rightarrow> (Panic msg, w)
      | Return p \<Rightarrow>
          (case GetContainerServer p (selectRemote p d) of
             Inl err \<Rightarrow> (Return (Some err), w)
           | Inr server \<Rightarrow>
               (case newbuiltImageIDFromResourceID (d_Id d) of
                  Panic msg \<Rightarrow> (Panic msg, w)
                | Return ident \<Rightarrow>
                    (case call_DeleteImage server (fingerprint ident) w of
                       (Inl err, w1) \<Rightarrow> (Return (Some err), w1)
                     | (Inr op, w1) \<Rightarrow> (Return (op_Wait op), emit Op_Wait w1)))))"

definition resourceLxdBuiltImageExists ::
  "ResourceData \<Rightarrow> 's meta \<Rightarrow> 's world \<Rightarrow> (bool \<times> error) outcome \<times> 's world" where
  "resourceLxdBuiltImageExists d m w =
     (case assert_lxdProvider m of
        Panic msg \<Rightarrow> (Panic msg, w)
      | Return p \<Rightarrow>
          (case GetContainerServer p (selectRemote p d) of
             Inl err \<Rightarrow> (Return (False, Some err), w)
           | Inr server \<Rightarrow>
               (case newbuiltImageIDFromResourceID (d_Id d) of
                  Panic msg \<Rightarrow> (Panic msg, w)
                | Return ident \<Rightarrow>
                    (case call_GetImage server (fingerprint ident) w of
                       (Inl err, w1) \<Rightarrow>
                         if err = ''not found'' then (Return (False, None), w1)
                         else (Return (False, Some err), w1)
                     | (Inr img, w1) \<Rightarrow> (Return (True, None), w1)))))"

text \<open>
  The loop of lines 355-361 over the aliases of the image: a name is kept when the
  configured set contains it or the copied set does not; otherwise it is logged.
\<close>

fun filterAliases ::
  "string list \<Rightarrow> string list \<Rightarrow> ImageAlias list \<Rightarrow> string list \<Rightarrow> 's world
     \<Rightarrow> string list \<times> 's world" where
  "filterAliases configSet copiedSet [] aliases w = (aliases, w)"
| "filterAliases configSet copiedSet (a # rest) aliases w =
     (if Contains configSet (Name a) \<or> \<not> Contains copiedSet (Name a)
      then filterAliases configSet copiedSet rest (aliases @ [Name a]) w
      else filterAliases configSet copiedSet rest aliases
             (emit (Log (''[DEBUG] filtered alias '' @ Name a)) w))"

definition resourceLxdBuiltImageRead ::
  "ResourceData \<Rightarrow> 's meta \<Rightarrow> 's world \<Rightarrow> error outcome \<times> ResourceData \<times> 's world" where
  "resourceLxdBuiltImageRead d m w =
     (case assert_lxdProvider m of
        Panic msg \<Rightarrow> (Panic msg, d, w)
      | Return p \<Rightarrow>
          (case GetImageServer p (selectRemote p d) of
             Inl err \<Rightarrow> (Return (Some err), d, w)
           | Inr server \<Rightarrow>
               (case newbuiltImageIDFromResourceID (d_Id d) of
                  Panic msg \<Rightarrow> (Panic msg, d, w)
                | Return ident \<Rightarrow>
                    (case call_GetImage server (fingerprint ident) w of
                       (Inl err, w1) \<Rightarrow>
                         if err = ''not found'' then (Return None, d\<lparr>d_Id := ''''\<rparr>, w1)
                         else (Return (Some err), d, w1)
                     | (Inr img, w1) \<Rightarrow>
                         (let d1 = d\<lparr>d_fingerprint := fingerprint ident\<rparr>;
                              d2 = d1\<lparr>d_created_at := CreatedAt img\<rparr>;
                              copiedSet = NewSet (d_copied_aliases d2);
                              configSet = NewSet (d_aliases d2)
                          in case filterAliases configSet copiedSet (Aliases img) [] w1 of
                               (aliases, w2) \<Rightarrow> (Return None, d2\<lparr>d_aliases := aliases\<rparr>, w2))))))"

section \<open>Create (lines 65-235)\<close>

text \<open>
  The operating system as Create meets it: the result of each call of lines 67-115 (an
  error, or the name of the directory or file made), and the state of each path of the
  working directory once the build has ended. The goroutine of lines 102-107 that echoes
  the output of the build is left out.
\<close>

datatype fstatus = Missing | Unreadable | Readable

record os_env =
  TempDir :: "string + string"
  TempFile :: "string + string"
  WriteFile_err :: error
  StdoutPipe_err :: error
  Start_err :: error
  Wait_err :: error
  files :: "string \<Rightarrow> fstatus"

text \<open>
  \<^verbatim>\<open>filepath.Join\<close> and \<^verbatim>\<open>filepath.Base\<close> on the paths of this file: a directory and
  a plain file name.
\<close>

definition Join :: "string \<Rightarrow> string \<Rightarrow> string" where
  "Join dir name = dir @ ''/'' @ name"

definition Base :: "string \<Rightarrow> string" where
  "Base path = rev (takeWhile (\<lambda>c. c \<noteq> CHR ''/'') (rev path))"

text \<open>\<^verbatim>\<open>_, err := os.Stat(path); os.IsNotExist(err)\<close>\<close>

definition IsNotExist :: "os_env \<Rightarrow> string \<Rightarrow> bool" where
  "IsNotExist env path = (files env path = Missing)"

definition os_Open :: "os_env \<Rightarrow> string \<Rightarrow> 's world \<Rightarrow> (string + string) \<times> 's world" where
  "os_Open env path w =
     (case files env path of
        Missing \<Rightarrow> (Inl (''open '' @ path @ '': no such file or directory''), w)
      | Unreadable \<Rightarrow> (Inl (''open '' @ path @ '': permission denied''), w)
      | Readable \<Rightarrow> (Inr path, emit (Os_Open path) w))"

text \<open>
  Deferred calls are kept on a stack, the last one deferred first, and run when the
  function returns or panics.
\<close>

definition run_deferred :: "event list \<Rightarrow> 's world \<Rightarrow> 's world" where
  "run_deferred deferred w = w\<lparr>trace := trace w @ deferred\<rparr>"

text \<open>
  \<^verbatim>\<open>defer r.Close()\<close> on a variable \<open>r\<close> of the interface type \<^verbatim>\<open>io.ReadCloser\<close>:
  the function value \<^verbatim>\<open>r.Close\<close> is evaluated when the defer statement executes, and
  evaluating a method of a nil interface value is a run-time panic.
\<close>

definition defer_Close :: "string option \<Rightarrow> event list \<Rightarrow> event list outcome" where
  "defer_Close r deferred =
     (case r of
        None \<Rightarrow> Panic ''invalid memory address or nil pointer dereference''
      | Some f \<Rightarrow> Return (File_Close f # deferred))"

text \<open>
  Lines 66-119: the working directory, the definition file and the build subprocess.
  The result is the error (if any), the directory, and the calls deferred so far.
\<close>

definition create_build ::
  "os_env \<Rightarrow> ResourceData \<Rightarrow> 's world \<Rightarrow> error \<times> string \<times> event list \<times> 's world" where
  "create_build env d w =
     (case TempDir env of
        Inl err \<Rightarrow> (Some err, [], [], w)
      | Inr dir \<Rightarrow>
          (case TempFile env of
             Inl err \<Rightarrow> (Some err, dir, [Os_RemoveAll dir], w)
           | Inr file \<Rightarrow>
               (let yaml = Join dir ''distrobuilder.yaml'' in
                case WriteFile_err env of
                  Some err \<Rightarrow> (Some err, dir, [Os_RemoveAll dir], w)
                | None \<Rightarrow>
                    (let w1 = emit (Os_WriteFile yaml (d_template d)) w;
                         deferred = [Os_Remove file, Os_RemoveAll dir]
                     in case StdoutPipe_err env of
                          Some err \<Rightarrow>
                            (Some err, dir, deferred,
                             emit (Log ''[ERROR] Error creating StdoutPipe for distrobuilder'') w1)
                        | None \<Rightarrow>
                            (case Start_err env of
                               Some err \<Rightarrow>
                                 (Some err, dir, deferred,
                                  emit (Log ''[ERROR] Error starting distrobuilder'') w1)
                             | None \<Rightarrow>
                                 (let w2 = emit (Cmd_Start [''sudo'', ''distrobuilder'', ''build-lxd'', yaml]) w1
                                  in case Wait_err env of
                                       Some err \<Rightarrow>
                                         (Some err, dir, deferred,
                                          emit (Log ''[ERROR] Error waiting for distrobuilder'') w2)
                                     | None \<Rightarrow> (None, dir, deferred, w2)))))))"

text \<open>
  The loop of lines 158-170: the first requested name that the store already has ends
  Create with an error; the error of the lookup itself is dropped.
\<close>

fun checkAliases ::
  "'s ContainerServer \<Rightarrow> string list \<Rightarrow> ImageAlias list \<Rightarrow> 's world
     \<Rightarrow> (string + ImageAlias list) \<times> 's world" where
  "checkAliases dstServer [] aliases w = (Inr aliases, w)"
| "checkAliases dstServer (a # rest) aliases w =
     (case call_GetImageAlias dstServer a w of
        (Some dstAliasTarget, w1) \<Rightarrow>
          (Inl (''Image alias already exists on destination: '' @ a), w1)
      | (None, w1) \<Rightarrow> checkAliases dstServer rest (aliases @ [\<lparr>Name = a\<rparr>]) w1)"

text \<open>
  Lines 194-201: the arguments of the image-create call, built from the two reader
  variables and the names of the two files.
\<close>

definition upload_request ::
  "string \<Rightarrow> string \<Rightarrow> string option \<Rightarrow> string option \<Rightarrow> ImagesPost \<times> ImageCreateArgs" where
  "upload_request meta_file rootfs_file meta_reader rootfs_reader =
     (let createArgs = \<lparr>MetaFile = meta_reader, MetaName = Base meta_file,
                        RootfsFile = rootfs_reader, RootfsName = Base rootfs_file\<rparr>
      in (\<lparr>Filename = MetaName createArgs\<rparr>, createArgs))"

text \<open>
  Lines 203-234: the image-create call, the wait, the fingerprint, the aliases, the
  identity, and the final Read. \<open>m\<close> is the value of the variable \<^verbatim>\<open>meta\<close> at line 234.
\<close>

definition create_upload ::
  "'s ContainerServer \<Rightarrow> string \<Rightarrow> string \<Rightarrow> string \<Rightarrow> string option \<Rightarrow> string option
     \<Rightarrow> ImageAlias list \<Rightarrow> ResourceData \<Rightarrow> 's meta \<Rightarrow> event list \<Rightarrow> 's world
     \<Rightarrow> error outcome \<times> ResourceData \<times> event list \<times> 's world" where
  "create_upload dstServer dstName meta_file rootfs_file meta_reader rootfs_reader
       aliases d m deferred w =
     (case upload_request meta_file rootfs_file meta_reader rootfs_reader of
        (post, createArgs) \<Rightarrow>
          (case call_CreateImage dstServer post createArgs w of
             (Inl err, w1) \<Rightarrow> (Return (Some err), d, deferred, w1)
           | (Inr op, w1) \<Rightarrow>
               (case op_Wait op of
                  Some err \<Rightarrow> (Return (Some err), d, deferred, emit Op_Wait w1)
                | None \<Rightarrow>
                    (case op_fingerprint op of
                       None \<Rightarrow>
                         (Panic ''interface conversion: interface {} is not string'',
                          d, deferred, emit Op_Wait w1)
                     | Some fp \<Rightarrow>
                         (case (if length aliases > 0
                                then ensureImageAliases dstServer aliases fp (emit Op_Wait w1)
                                else (None, emit Op_Wait w1)) of
                            (Some err, w2) \<Rightarrow> (Return (Some err), d, deferred, w2)
                          | (None, w2) \<Rightarrow>
                              (let ident = newbuiltImageID dstName fp;
                                   d1 = d\<lparr>d_Id := resourceID ident\<rparr>
                               in case resourceLxdBuiltImageRead d1 m w2 of
                                    (r, d2, w3) \<Rightarrow> (r, d2, deferred, w3)))))))"

text \<open>
  Lines 178-192: the two reader variables start as nil; line 181 assigns the opened
  metadata file to \<^verbatim>\<open>meta\<close>, line 185 defers \<^verbatim>\<open>meta_reader.Close()\<close>, line 188
  assigns the opened filesystem image to \<^verbatim>\<open>rootfs_reader\<close>, line 192 defers its close.
\<close>

definition create_transfer ::
  "os_env \<Rightarrow> 's ContainerServer \<Rightarrow> string \<Rightarrow> string \<Rightarrow> string \<Rightarrow> ImageAlias list
     \<Rightarrow> ResourceData \<Rightarrow> 's meta \<Rightarrow> event list \<Rightarrow> 's world
     \<Rightarrow> error outcome \<times> ResourceData \<times> event list \<times> 's world" where
  "create_transfer env dstServer dstName meta_file rootfs_file aliases d m deferred w =
     (let meta_reader = (None :: string option) in
      case os_Open env meta_file w of
        (Inl err, w1) \<Rightarrow> (Return (Some err), d, deferred, w1)
      | (Inr f, w1) \<Rightarrow>
          (let m1 = OsFile f in
           case defer_Close meta_reader deferred of
             Panic msg \<Rightarrow> (Panic msg, d, deferred, w1)
           | Return deferred1 \<Rightarrow>
               (case os_Open env rootfs_file w1 of
                  (Inl err, w2) \<Rightarrow> (Return (Some err), d, deferred1, w2)
                | (Inr rf, w2) \<Rightarrow>
                    (let rootfs_reader = Some rf in
                     case defer_Close rootfs_reader deferred1 of
                       Panic msg \<Rightarrow> (Panic msg, d, deferred1, w2)
                     | Return deferred2 \<Rightarrow>
                         create_upload dstServer dstName meta_file rootfs_file
                           meta_reader rootfs_reader aliases d m1 deferred2 w2))))"

text \<open>
  Lines 121-130: the two existence checks. Both call \<^verbatim>\<open>os.Stat(meta_file)\<close>, and both
  only log.
\<close>

definition check_artifacts :: "os_env \<Rightarrow> string \<Rightarrow> 's world \<Rightarrow> 's world" where
  "check_artifacts env dir w =
     (let meta_file = Join dir ''lxd.tar.xz'';
          w1 = (if IsNotExist env meta_file
                then emit (Log (''[ERROR] lxd.tar.xz not found at '' @ dir)) w else w);
          rootfs_file = Join dir ''rootfs.squashfs''
      in if IsNotExist env meta_file
         then emit (Log (''[ERROR] rootfs.squashfs not found at '' @ dir)) w1 else w1)"

text \<open>
  Lines 141-151: when the resource data already has a fingerprint, the image is looked
  up and a failed lookup ends Create.
\<close>

definition lookup_fingerprint ::
  "'s ContainerServer \<Rightarrow> string \<Rightarrow> ResourceData \<Rightarrow> 's world \<Rightarrow> error \<times> 's world" where
  "lookup_fingerprint dstServer dstName d w =
     (if d_fingerprint d \<noteq> ''''
      then (case call_GetImage dstServer (d_fingerprint d) w of
              (Inl err, w1) \<Rightarrow> (Some err, w1)
            | (Inr imgInfo, w1) \<Rightarrow>
                (None,
                 emit (Log ''[INFO] image info'')
                   (emit (Log (''[INFO] there is already an image with fingerprint ''
                               @ d_fingerprint d @ '' in '' @ dstName)) w1)))
      else (None, w))"

text \<open>Lines 156-171: the requested aliases, each checked against the store.\<close>

definition requested_aliases ::
  "'s ContainerServer \<Rightarrow> ResourceData \<Rightarrow> 's world \<Rightarrow> (string + ImageAlias list) \<times> 's world" where
  "requested_aliases dstServer d w =
     (if d_aliases d \<noteq> [] then checkAliases dstServer (d_aliases d) [] w else (Inr [], w))"

text \<open>
  Lines 121-171 in their order: the existence checks, the connection to the store, the
  lookup of a fingerprint already set, the check of the requested aliases; then the
  transfer.
\<close>

definition create_import ::
  "os_env \<Rightarrow> string \<Rightarrow> ResourceData \<Rightarrow> 's meta \<Rightarrow> event list \<Rightarrow> 's world
     \<Rightarrow> error outcome \<times> ResourceData \<times> event list \<times> 's world" where
  "create_import env dir d m deferred w =
     (let meta_file = Join dir ''lxd.tar.xz'';
          rootfs_file = Join dir ''rootfs.squashfs'';
          w2 = check_artifacts env dir w
      in case assert_lxdProvider m of
           Panic msg \<Rightarrow> (Panic msg, d, deferred, w2)
         | Return p \<Rightarrow>
             (let dstName = selectRemote p d in
              case GetContainerServer p dstName of
                Inl err \<Rightarrow> (Return (Some err), d, deferred, w2)
              | Inr dstServer \<Rightarrow>
                  (case lookup_fingerprint dstServer dstName d w2 of
                     (Some err, w3) \<Rightarrow> (Return (Some err), d, deferred, w3)
                   | (None, w3) \<Rightarrow>
                       (case requested_aliases dstServer d w3 of
                          (Inl err, w4) \<Rightarrow> (Return (Some err), d, deferred, w4)
                        | (Inr aliases, w4) \<Rightarrow>
                            create_transfer env dstServer dstName meta_file rootfs_file
                              aliases d m deferred w4))))"

definition resourceLxdBuiltImageCreate ::
  "os_env \<Rightarrow> ResourceData \<Rightarrow> 's meta \<Rightarrow> 's world
     \<Rightarrow> error outcome \<times> ResourceData \<times> 's world" where
  "resourceLxdBuiltImageCreate env d m w =
     (case create_build env d w of
        (Some err, dir, deferred, w1) \<Rightarrow> (Return (Some err), d, run_deferred deferred w1)
      | (None, dir, deferred, w1) \<Rightarrow>
          (case create_import env dir d m deferred w1 of
             (r, d', deferred', w2) \<Rightarrow> (r, d', run_deferred deferred' w2)))"

section \<open>Observations on the trace\<close>

text \<open>What an operation issued: the events it appended to the trace.\<close>

definition issued :: "'s world \<Rightarrow> 's world \<Rightarrow> event list" where
  "issued w w' = drop (length (trace w)) (trace w')"

text \<open>The alias operations among the events, in the order of their issue.\<close>

datatype alias_op = Delete_op string | Create_op string string

fun alias_ops :: "event list \<Rightarrow> alias_op list" where
  "alias_ops [] = []"
| "alias_ops (Call_DeleteImageAlias n e # evs) = Delete_op n # alias_ops evs"
| "alias_ops (Call_CreateImageAlias n t e # evs) = Create_op n t # alias_ops evs"
| "alias_ops (ev # evs) = alias_ops evs"

fun is_Delete :: "alias_op \<Rightarrow> bool" where
  "is_Delete (Delete_op n) = True"
| "is_Delete (Create_op n t) = False"

fun creates_to :: "string \<Rightarrow> alias_op \<Rightarrow> bool" where
  "creates_to fp (Create_op n t) = (t = fp)"
| "creates_to fp (Delete_op n) = False"

text \<open>
  The reconciliation in the words of the specification, for the existing names \<open>A\<close>, the
  desired names \<open>B\<close> and the target fingerprint: as many deletes as \<open>A - B\<close> has names, as
  many creates as \<open>B - A\<close> has, every create bound to the target, and nothing but such
  creates once the leading deletes are over.
\<close>

definition reconciles :: "string set \<Rightarrow> string set \<Rightarrow> string \<Rightarrow> alias_op list \<Rightarrow> bool" where
  "reconciles A B fp ops =
     (length (filter is_Delete ops) = card (A - B) \<and>
      length (filter (creates_to fp) ops) = card (B - A) \<and>
      list_all (creates_to fp) (dropWhile is_Delete ops))"

text \<open>The error an alias call returned; \<open>None\<close> for a call that succeeded and for any other event.\<close>

fun failure_of :: "event \<Rightarrow> error" where
  "failure_of (Call_DeleteImageAlias n e) = e"
| "failure_of (Call_CreateImageAlias n t e) = e"
| "failure_of ev = None"

text \<open>Every failed alias call is followed at once by the line that reports it.\<close>

fun failures_logged :: "event list \<Rightarrow> bool" where
  "failures_logged [] = True"
| "failures_logged (ev # evs) =
     (case failure_of ev of
        None \<Rightarrow> failures_logged evs
      | Some e \<Rightarrow>
          (case ev of
             Call_DeleteImageAlias n x \<Rightarrow>
               evs \<noteq> [] \<and> hd evs = Println (''Failed to remove alias '' @ n) \<and> failures_logged (tl evs)
           | Call_CreateImageAlias n t x \<Rightarrow>
               evs \<noteq> [] \<and> hd evs = Println (''Failed to create alias '' @ n) \<and> failures_logged (tl evs)
           | _ \<Rightarrow> False))"

text \<open>
  The first failed alias call is the last event issued, and its error is the result of the
  operation.
\<close>

fun fail_fast :: "error outcome \<Rightarrow> event list \<Rightarrow> bool" where
  "fail_fast r [] = True"
| "fail_fast r (ev # evs) =
     (case failure_of ev of
        None \<Rightarrow> fail_fast r evs
      | Some e \<Rightarrow> evs = [] \<and> r = Return (Some e))"

text \<open>The calls that create something on the store: an image or an alias.\<close>

fun is_creation :: "event \<Rightarrow> bool" where
  "is_creation (Call_CreateImage mf rf) = True"
| "is_creation (Call_CreateImageAlias n t e) = True"
| "is_creation ev = False"

text \<open>
  From \<open>w\<close> to \<open>w'\<close> nothing was created: the store is as it was, and the events added to
  the trace hold no image-create and no alias-create call.
\<close>

definition creates_nothing :: "'s world \<Rightarrow> 's world \<Rightarrow> bool" where
  "creates_nothing w w' =
     (store w' = store w \<and> trace w' = trace w @ issued w w' \<and>
      \<not> list_ex is_creation (issued w w'))"

section \<open>A concrete store for worked examples\<close>

text \<open>
  Modelled from the spec: the remote image store of sections 3 and 6 (the lxd server is
  not part of this repository). Images are keyed by fingerprint, an alias name is bound to
  one fingerprint, deleting an absent alias or image fails with \<open>not found\<close>, creating
  an alias that exists fails. No claim is decided by this store: it is the example at
  which the general theorems are instantiated.
\<close>

record store_state =
  images :: "(string \<times> int) list"
  alias_table :: "ImageAliasesEntry list"

definition simpleStore :: "store_state ContainerServer" where
  "simpleStore =
     \<lparr>GetImage = (\<lambda>fp s.
          case map_of (images s) fp of
            None \<Rightarrow> Inl ''not found''
          | Some created \<Rightarrow>
              Inr \<lparr>Aliases = map (\<lambda>e. \<lparr>Name = Name e\<rparr>) (filter (\<lambda>e. Target e = fp) (alias_table s)),
                   CreatedAt = created\<rparr>),
      GetImageAlias = (\<lambda>name s.
          case find (\<lambda>e. Name e = name) (alias_table s) of
            None \<Rightarrow> (None, Some ''not found'')
          | Some e \<Rightarrow> (Some e, None)),
      GetImageAliases = (\<lambda>s. Inr (alias_table s)),
      CreateImage = (\<lambda>post args s.
          (Inr \<lparr>op_Wait = None, op_fingerprint = Some ''f00d''\<rparr>,
           s\<lparr>images := images s @ [(''f00d'', 0)]\<rparr>)),
      DeleteImage = (\<lambda>fp s.
          case map_of (images s) fp of
            None \<Rightarrow> (Inl ''not found'', s)
          | Some created \<Rightarrow>
              (Inr \<lparr>op_Wait = None, op_fingerprint = None\<rparr>,
               s\<lparr>images := filter (\<lambda>kv. fst kv \<noteq> fp) (images s)\<rparr>)),
      CreateImageAlias = (\<lambda>req s.
          if find (\<lambda>e. Name e = Name req) (alias_table s) \<noteq> None
          then (Some ''already exists'', s)
          else (None, s\<lparr>alias_table := alias_table s @ [req]\<rparr>)),
      DeleteImageAlias = (\<lambda>name s.
          if find (\<lambda>e. Name e = name) (alias_table s) \<noteq> None
          then (None, s\<lparr>alias_table := filter (\<lambda>e. Name e \<noteq> name) (alias_table s)\<rparr>)
          else (Some ''not found'', s))\<rparr>"

definition simpleProvider :: "store_state lxdProvider" where
  "simpleProvider =
     \<lparr>selectRemote = (\<lambda>d. if d_remote d = '''' then ''local'' else d_remote d),
      GetContainerServer = (\<lambda>name. Inr simpleStore),
      GetImageServer = (\<lambda>name. Inr simpleStore)\<rparr>"

definition goodBuild :: os_env where
  "goodBuild =
     \<lparr>TempDir = Inr ''/tmp/distrobuilder1'',
      TempFile = Inr ''/tmp/distrobuilder1/distrobuilder2'',
      WriteFile_err = None, StdoutPipe_err = None, Start_err = None, Wait_err = None,
      files = (\<lambda>path. if path = ''/tmp/distrobuilder1/lxd.tar.xz''
                           \<or> path = ''/tmp/distrobuilder1/rootfs.squashfs''
                        then Readable else Missing)\<rparr>"

definition newResource :: "string list \<Rightarrow> ResourceData" where
  "newResource names =
     \<lparr>d_Id = '''', d_template = ''image: {distribution: ubuntu}'', d_remote = '''',
      d_fingerprint = '''', d_aliases_old = [], d_aliases = names, d_copied_aliases = [],
      d_created_at = 0\<rparr>"

text \<open>A provider that connects every remote to the given client.\<close>

definition providerOf :: "'s ContainerServer \<Rightarrow> 's lxdProvider" where
  "providerOf srv =
     \<lparr>selectRemote = (\<lambda>d. if d_remote d = '''' then ''local'' else d_remote d),
      GetContainerServer = (\<lambda>name. Inr srv),
      GetImageServer = (\<lambda>name. Inr srv)\<rparr>"

text \<open>The store with every image lookup failing with the given message.\<close>

definition unreachableStore :: "string \<Rightarrow> store_state ContainerServer" where
  "unreachableStore msg = simpleStore\<lparr>GetImage := (\<lambda>fp s. Inl msg)\<rparr>"

text \<open>A world whose store holds one image, \<open>f00d\<close>, and the given alias entries.\<close>

definition storeWith :: "ImageAliasesEntry list \<Rightarrow> store_state world" where
  "storeWith entries = \<lparr>store = \<lparr>images = [(''f00d'', 7)], alias_table = entries\<rparr>, trace = []\<rparr>"

text \<open>
  A resource whose identity is \<open>local/f00d\<close>, with the aliases of the prior state and
  the aliases now configured.
\<close>

definition resourceWith :: "string list \<Rightarrow> string list \<Rightarrow> ResourceData" where
  "resourceWith old new = (newResource new)\<lparr>d_Id := ''local/f00d'', d_aliases_old := old\<rparr>"

text \<open>
  Builds that end well but leave one artifact out: the filesystem image, or the metadata
  archive.
\<close>

definition buildWithoutRootfs :: os_env where
  "buildWithoutRootfs =
     goodBuild\<lparr>files := (\<lambda>path. if path = ''/tmp/distrobuilder1/lxd.tar.xz''
                                then Readable else Missing)\<rparr>"

definition buildWithoutMeta :: os_env where
  "buildWithoutMeta =
     goodBuild\<lparr>files := (\<lambda>path. if path = ''/tmp/distrobuilder1/rootfs.squashfs''
                                then Readable else Missing)\<rparr>"

text \<open>A build whose subprocess exits with an error.\<close>

definition failedBuild :: os_env where
  "failedBuild = goodBuild\<lparr>Wait_err := Some ''exit status 1''\<rparr>"

text \<open>The store that rejects every upload.\<close>

definition rejectingStore :: "store_state ContainerServer" where
  "rejectingStore = simpleStore\<lparr>CreateImage := (\<lambda>post args s. (Inl ''rejected'', s))\<rparr>"

section \<open>Properties of the composite identity\<close>

lemma SplitN_two_slash:
  "CHR ''/'' \<in> set s \<Longrightarrow>
     SplitN s (CHR ''/'') 2 =
       [takeWhile (\<lambda>c. c \<noteq> CHR ''/'') s, tl (dropWhile (\<lambda>c. c \<noteq> CHR ''/'') s)]"
  by (simp add: numeral_2_eq_2)

lemma SplitN_two_no_slash:
  "CHR ''/'' \<notin> set s \<Longrightarrow> SplitN s (CHR ''/'') 2 = [s]"
  by (simp add: numeral_2_eq_2)

lemma parse_slash:
  "CHR ''/'' \<in> set s \<Longrightarrow>
     newbuiltImageIDFromResourceID s =
       Return \<lparr>remote = takeWhile (\<lambda>c. c \<noteq> CHR ''/'') s,
               fingerprint = tl (dropWhile (\<lambda>c. c \<noteq> CHR ''/'') s)\<rparr>"
  by (simp add: newbuiltImageIDFromResourceID_def SplitN_two_slash index_def)

lemma parse_no_slash:
  "CHR ''/'' \<notin> set s \<Longrightarrow>
     newbuiltImageIDFromResourceID s = Panic ''index out of range''"
  by (simp add: newbuiltImageIDFromResourceID_def SplitN_two_no_slash index_def)

text \<open>
  Claim C3. The composite identity round-trips: for a remote without \<open>/\<close> and a nonempty
  fingerprint, parsing the serialized identity gives back the remote and the fingerprint.
\<close>

theorem resourceID_roundtrip:
  assumes "CHR ''/'' \<notin> set r" and "f \<noteq> []"
  shows "newbuiltImageIDFromResourceID (resourceID (newbuiltImageID r f)) =
           Return \<lparr>remote = r, fingerprint = f\<rparr>"
proof -
  let ?s = "r @ ''/'' @ f"
  have sl: "CHR ''/'' \<in> set ?s" by simp
  have tw: "takeWhile (\<lambda>c. c \<noteq> CHR ''/'') ?s = r"
    using assms(1) by (induction r) auto
  have dw: "dropWhile (\<lambda>c. c \<noteq> CHR ''/'') ?s = ''/'' @ f"
    using assms(1) by (induction r) auto
  show ?thesis
    unfolding resourceID_def newbuiltImageID_def
    using parse_slash [OF sl] tw dw by simp
qed

theorem resourceID_roundtrip_witness:
  "CHR ''/'' \<notin> set ''local'' \<and> ''a1b2'' \<noteq> [] \<and>
   newbuiltImageIDFromResourceID (resourceID (newbuiltImageID ''local'' ''a1b2'')) =
     Return \<lparr>remote = ''local'', fingerprint = ''a1b2''\<rparr>"
proof -
  have h1: "CHR ''/'' \<notin> set ''local''" by simp
  have h2: "''a1b2'' \<noteq> []" by simp
  show ?thesis using h1 h2 resourceID_roundtrip [OF h1 h2] by simp
qed

section \<open>Read: the visible aliases\<close>

lemma triple_collapse: "x = (fst x, fst (snd x), snd (snd x))"
  by simp




section \<open>Read: a fingerprint the store does not have\<close>

text \<open>
  Claim C8. When the image lookup of Read fails with the error \<open>not found\<close>, Read sets
  the identity to the empty string and returns no error; when the lookup fails with any
  other error, Read returns that error and leaves the resource data, the identity
  included, as it was.
\<close>

theorem Read_not_found:
  assumes "GetImageServer p (selectRemote p d) = Inr server"
    and "newbuiltImageIDFromResourceID (d_Id d) = Return ident"
    and "GetImage server (fingerprint ident) (store w) = Inl err"
    and "resourceLxdBuiltImageRead d (Provider p) w = (r, d', w')"
  shows "(err = ''not found'' \<longrightarrow> r = Return None \<and> d' = d\<lparr>d_Id := ''''\<rparr>) \<and>
         (err \<noteq> ''not found'' \<longrightarrow> r = Return (Some err) \<and> d' = d)"
  using assms
  by (auto simp: resourceLxdBuiltImageRead_def assert_lxdProvider_def call_GetImage_def)

theorem Read_not_found_witness:
  "resourceLxdBuiltImageRead ((newResource [])\<lparr>d_Id := ''local/beef''\<rparr>)
     (Provider (providerOf simpleStore))
     \<lparr>store = \<lparr>images = [(''f00d'', 7)], alias_table = []\<rparr>, trace = []\<rparr> =
     (Return None, (newResource [])\<lparr>d_Id := ''''\<rparr>,
      \<lparr>store = \<lparr>images = [(''f00d'', 7)], alias_table = []\<rparr>, trace = [Call_GetImage ''beef'']\<rparr>) \<and>
   fst (resourceLxdBuiltImageRead ((newResource [])\<lparr>d_Id := ''local/beef''\<rparr>)
     (Provider (providerOf (unreachableStore ''connection refused'')))
     \<lparr>store = \<lparr>images = [(''f00d'', 7)], alias_table = []\<rparr>, trace = []\<rparr>) =
     Return (Some ''connection refused'') \<and>
   fst (snd (resourceLxdBuiltImageRead ((newResource [])\<lparr>d_Id := ''local/beef''\<rparr>)
     (Provider (providerOf (unreachableStore ''connection refused'')))
     \<lparr>store = \<lparr>images = [(''f00d'', 7)], alias_table = []\<rparr>, trace = []\<rparr>)) =
     (newResource [])\<lparr>d_Id := ''local/beef''\<rparr>"
proof -
  let ?d = "(newResource [])\<lparr>d_Id := ''local/beef''\<rparr>"
  let ?w = "\<lparr>store = \<lparr>images = [(''f00d'', 7)], alias_table = []\<rparr>, trace = []\<rparr>"
  let ?ident = "\<lparr>remote = ''local'', fingerprint = ''beef''\<rparr>"
  have h2: "newbuiltImageIDFromResourceID (d_Id ?d) = Return ?ident"
    by (simp add: parse_slash)
  have a1: "GetImageServer (providerOf simpleStore) (selectRemote (providerOf simpleStore) ?d) =
      Inr simpleStore"
    by (simp add: providerOf_def)
  have a3: "GetImage simpleStore (fingerprint ?ident) (store ?w) = Inl ''not found''"
    by (simp add: simpleStore_def)
  have b1: "GetImageServer (providerOf (unreachableStore ''connection refused''))
      (selectRemote (providerOf (unreachableStore ''connection refused'')) ?d) =
      Inr (unreachableStore ''connection refused'')"
    by (simp add: providerOf_def)
  have b3: "GetImage (unreachableStore ''connection refused'') (fingerprint ?ident) (store ?w) =
      Inl ''connection refused''"
    by (simp add: unreachableStore_def)
  have w: "snd (snd (resourceLxdBuiltImageRead ?d (Provider (providerOf simpleStore)) ?w)) =
      \<lparr>store = \<lparr>images = [(''f00d'', 7)], alias_table = []\<rparr>, trace = [Call_GetImage ''beef'']\<rparr>"
    using h2 a1 a3
    by (simp add: resourceLxdBuiltImageRead_def assert_lxdProvider_def call_GetImage_def emit_def)
  show ?thesis
    using Read_not_found [OF a1 h2 a3 triple_collapse] Read_not_found [OF b1 h2 b3 triple_collapse] w
    by (simp add: prod_eq_iff)
qed

section \<open>Parsing the persisted identity\<close>

text \<open>
  Claim C10. On an identity with a \<open>/\<close> the split has two pieces, both index accesses are
  in bounds, the remote is the prefix before the first \<open>/\<close> and the fingerprint is the
  whole remainder. On an identity without \<open>/\<close> the split has one piece and the access to
  the second one is out of range: the parse panics. Update, Delete, Exists and Read parse
  the stored identity without any check of its form, as soon as the provider has given
  them a client: on an identity without \<open>/\<close> each of them panics.
\<close>

theorem parse_total_iff_slash:
  "(CHR ''/'' \<in> set s \<longrightarrow>
      length (SplitN s (CHR ''/'') 2) = 2 \<and>
      newbuiltImageIDFromResourceID s =
        Return \<lparr>remote = takeWhile (\<lambda>c. c \<noteq> CHR ''/'') s,
                fingerprint = tl (dropWhile (\<lambda>c. c \<noteq> CHR ''/'') s)\<rparr> \<and>
      s = takeWhile (\<lambda>c. c \<noteq> CHR ''/'') s @ ''/'' @ tl (dropWhile (\<lambda>c. c \<noteq> CHR ''/'') s)) \<and>
   (CHR ''/'' \<notin> set s \<longrightarrow>
      length (SplitN s (CHR ''/'') 2) = 1 \<and>
      index (SplitN s (CHR ''/'') 2) 1 = Panic ''index out of range'' \<and>
      newbuiltImageIDFromResourceID s = Panic ''index out of range'') \<and>
   (CHR ''/'' \<notin> set (d_Id d) \<and>
    GetContainerServer p (selectRemote p d) = Inr srv \<and>
    GetImageServer p (selectRemote p d) = Inr isrv \<longrightarrow>
      fst (resourceLxdBuiltImageUpdate h d (Provider p) w) = Panic ''index out of range'' \<and>
      fst (resourceLxdBuiltImageDelete d (Provider p) w) = Panic ''index out of range'' \<and>
      fst (resourceLxdBuiltImageExists d (Provider p) w) = Panic ''index out of range'' \<and>
      fst (resourceLxdBuiltImageRead d (Provider p) w) = Panic ''index out of range'')"
proof -
  have dec: "CHR ''/'' \<in> set s \<Longrightarrow>
      s = takeWhile (\<lambda>c. c \<noteq> CHR ''/'') s @ ''/'' @ tl (dropWhile (\<lambda>c. c \<noteq> CHR ''/'') s)"
    by (induction s) auto
  show ?thesis
    using dec
    by (auto simp: parse_slash parse_no_slash SplitN_two_slash SplitN_two_no_slash index_def
        resourceLxdBuiltImageUpdate_def resourceLxdBuiltImageDelete_def
        resourceLxdBuiltImageExists_def resourceLxdBuiltImageRead_def assert_lxdProvider_def)
qed

theorem parse_total_iff_slash_witness:
  "newbuiltImageIDFromResourceID ''local/ab/cd'' =
     Return \<lparr>remote = ''local'', fingerprint = ''ab/cd''\<rparr> \<and>
   newbuiltImageIDFromResourceID ''local'' = Panic ''index out of range'' \<and>
   fst (resourceLxdBuiltImageUpdate (length :: string \<Rightarrow> nat) ((newResource [])\<lparr>d_Id := ''local''\<rparr>)
     (Provider simpleProvider) \<lparr>store = \<lparr>images = [], alias_table = []\<rparr>, trace = []\<rparr>) =
     Panic ''index out of range'' \<and>
   fst (resourceLxdBuiltImageDelete ((newResource [])\<lparr>d_Id := ''local''\<rparr>)
     (Provider simpleProvider) \<lparr>store = \<lparr>images = [], alias_table = []\<rparr>, trace = []\<rparr>) =
     Panic ''index out of range'' \<and>
   fst (resourceLxdBuiltImageExists ((newResource [])\<lparr>d_Id := ''local''\<rparr>)
     (Provider simpleProvider) \<lparr>store = \<lparr>images = [], alias_table = []\<rparr>, trace = []\<rparr>) =
     Panic ''index out of range'' \<and>
   fst (resourceLxdBuiltImageRead ((newResource [])\<lparr>d_Id := ''local''\<rparr>)
     (Provider simpleProvider) \<lparr>store = \<lparr>images = [], alias_table = []\<rparr>, trace = []\<rparr>) =
     Panic ''index out of range''"
proof -
  let ?d = "(newResource [])\<lparr>d_Id := ''local''\<rparr>"
  let ?w = "\<lparr>store = \<lparr>images = [], alias_table = []\<rparr>, trace = []\<rparr>"
  have c: "GetContainerServer simpleProvider (selectRemote simpleProvider ?d) = Inr simpleStore"
    "GetImageServer simpleProvider (selectRemote simpleProvider ?d) = Inr simpleStore"
    by (simp_all add: simpleProvider_def)
  show ?thesis
    using parse_total_iff_slash [of "''local/ab/cd''" ?d simpleProvider simpleStore simpleStore
        "length :: string \<Rightarrow> nat" ?w]
      parse_total_iff_slash [of "''local''" ?d simpleProvider simpleStore simpleStore
        "length :: string \<Rightarrow> nat" ?w] c
    by (simp add: newResource_def)
qed

section \<open>Binary search finds the members of a sorted slice\<close>

lemma Search_loop_stop: "\<not> i < j \<Longrightarrow> Search_loop f i j = i"
  by (subst Search_loop.simps) simp

lemma Search_loop_right:
  "i < j \<Longrightarrow> \<not> f ((i + j) div 2) \<Longrightarrow> Search_loop f i j = Search_loop f ((i + j) div 2 + 1) j"
  by (subst Search_loop.simps) simp

lemma Search_loop_left:
  "i < j \<Longrightarrow> f ((i + j) div 2) \<Longrightarrow> Search_loop f i j = Search_loop f i ((i + j) div 2)"
  by (subst Search_loop.simps) simp

lemma Search_loop_least:
  "(\<forall>a b. a \<le> b \<and> b < n \<and> f a \<longrightarrow> f b) \<Longrightarrow> i \<le> j \<Longrightarrow> j \<le> n \<Longrightarrow>
   (\<forall>k < i. \<not> f k) \<Longrightarrow> (\<forall>k. j \<le> k \<and> k < n \<longrightarrow> f k) \<Longrightarrow>
   Search_loop f i j \<le> n \<and> (\<forall>k < Search_loop f i j. \<not> f k) \<and>
   (\<forall>k. Search_loop f i j \<le> k \<and> k < n \<longrightarrow> f k)"
proof (induction f i j rule: Search_loop.induct)
  case (1 f i j)
  note mono = "1.prems"(1)
  show ?case
  proof (cases "i < j")
    case False
    have eq: "Search_loop f i j = i" using False by (rule Search_loop_stop)
    have ij: "i = j" using False "1.prems"(2) by simp
    have "i \<le> n" using ij "1.prems"(3) by simp
    moreover have "\<forall>k < i. \<not> f k" by (rule "1.prems"(4))
    moreover have "\<forall>k. i \<le> k \<and> k < n \<longrightarrow> f k" using "1.prems"(5) unfolding ij .
    ultimately show ?thesis unfolding eq by blast
  next
    case True
    let ?h = "(i + j) div 2"
    have h1: "i \<le> ?h" and h2: "?h < j" using True by simp_all
    have hn: "?h < n" using h2 "1.prems"(3) by simp
    show ?thesis
    proof (cases "f ?h")
      case False
      have below: "\<forall>k < ?h + 1. \<not> f k"
      proof (intro allI impI)
        fix k assume "k < ?h + 1"
        then have "k \<le> ?h" by simp
        then show "\<not> f k" using mono hn False by blast
      qed
      have le: "?h + 1 \<le> j" using h2 by simp
      have eq: "Search_loop f i j = Search_loop f (?h + 1) j"
        using True False by (rule Search_loop_right)
      have res: "Search_loop f (?h + 1) j \<le> n \<and> (\<forall>k < Search_loop f (?h + 1) j. \<not> f k) \<and>
            (\<forall>k. Search_loop f (?h + 1) j \<le> k \<and> k < n \<longrightarrow> f k)"
        by (rule "1.IH"(1) [OF True False mono le "1.prems"(3) below "1.prems"(5)])
      show ?thesis unfolding eq by (rule res)
    next
      case fh: True
      have above: "\<forall>k. ?h \<le> k \<and> k < n \<longrightarrow> f k"
        using mono fh by blast
      have nf: "\<not> \<not> f ?h" using fh by simp
      have le: "?h \<le> n" using hn by simp
      have eq: "Search_loop f i j = Search_loop f i ?h"
        using True fh by (rule Search_loop_left)
      have res: "Search_loop f i ?h \<le> n \<and> (\<forall>k < Search_loop f i ?h. \<not> f k) \<and>
            (\<forall>k. Search_loop f i ?h \<le> k \<and> k < n \<longrightarrow> f k)"
        by (rule "1.IH"(2) [OF True nf mono h1 le "1.prems"(4) above])
      show ?thesis unfolding eq by (rule res)
    qed
  qed
qed

lemma SearchStrings_sorted:
  assumes "sorted a"
  shows "(SearchStrings a x < length a \<and> a ! SearchStrings a x = x) = (x \<in> set a)"
proof -
  define r where "r = SearchStrings a x"
  define f where "f = (\<lambda>i. x \<le> a ! i)"
  have mono: "\<forall>i j. i \<le> j \<and> j < length a \<and> f i \<longrightarrow> f j"
  proof (intro allI impI)
    fix i j assume h: "i \<le> j \<and> j < length a \<and> f i"
    from h have ij: "i \<le> j" and j: "j < length a" and xi: "x \<le> a ! i"
      unfolding f_def by blast+
    have "a ! i \<le> a ! j" using assms ij j by (rule sorted_nth_mono)
    with xi have "x \<le> a ! j" by (rule order_trans)
    then show "f j" unfolding f_def .
  qed
  have s1: "(0::nat) \<le> length a" by simp
  have s2: "length a \<le> length a" by simp
  have s3: "\<forall>k < (0::nat). \<not> f k" by simp
  have s4: "\<forall>k. length a \<le> k \<and> k < length a \<longrightarrow> f k"
  proof (intro allI impI)
    fix k assume "length a \<le> k \<and> k < length a"
    then have False by linarith
    then show "f k" ..
  qed
  have rdef: "r = Search_loop f 0 (length a)"
    unfolding r_def f_def SearchStrings_def Search_def ..
  have res: "r \<le> length a \<and> (\<forall>k < r. \<not> f k) \<and> (\<forall>k. r \<le> k \<and> k < length a \<longrightarrow> f k)"
    unfolding rdef by (rule Search_loop_least [OF mono s1 s2 s3 s4])
  from res have low: "\<forall>k < r. \<not> f k" and high: "\<forall>k. r \<le> k \<and> k < length a \<longrightarrow> f k"
    by blast+
  have "(r < length a \<and> a ! r = x) = (x \<in> set a)"
  proof
    assume h: "r < length a \<and> a ! r = x"
    then have "a ! r \<in> set a" by (intro nth_mem) blast
    with h show "x \<in> set a" by blast
  next
    assume "x \<in> set a"
    then obtain k where k1: "k < length a" and k2: "a ! k = x"
      unfolding in_set_conv_nth by blast
    have fk: "f k" unfolding f_def k2 by (rule order_refl)
    have "\<not> k < r" using low fk by blast
    then have rk: "r \<le> k" by (rule leI)
    from rk k1 have lt: "r < length a" by (rule le_less_trans)
    have c1: "a ! r \<le> x" using sorted_nth_mono [OF assms rk k1] unfolding k2 .
    have "f r" using high lt by blast
    then have c2: "x \<le> a ! r" unfolding f_def .
    from c1 c2 have "a ! r = x" by (rule order_antisym)
    with lt show "r < length a \<and> a ! r = x" by (rule conjI)
  qed
  then show ?thesis unfolding r_def .
qed

lemma GetExistingAliases_sorted:
  assumes "sorted names"
  shows "GetExistingAliases names resp = filter (\<lambda>a. Name a \<in> set names) resp"
  unfolding GetExistingAliases_def Let_def SearchStrings_sorted [OF assms] ..

section \<open>What the alias loops of ensureImageAliases issue\<close>

lemma issued_append: "trace w' = trace w @ evs \<Longrightarrow> issued w w' = evs"
  by (simp add: issued_def)

lemma alias_ops_append: "alias_ops (xs @ ys) = alias_ops xs @ alias_ops ys"
  by (induction xs rule: alias_ops.induct) simp_all

lemma failures_logged_append:
  "failures_logged xs \<Longrightarrow> failures_logged ys \<Longrightarrow> failures_logged (xs @ ys)"
proof (induction xs rule: failures_logged.induct)
  case 1
  then show ?case by simp
next
  case (2 ev evs)
  show ?case
  proof (cases "failure_of ev")
    case None
    then show ?thesis using 2 by simp
  next
    case (Some e)
    then show ?thesis using 2
      by (cases ev; cases evs) auto
  qed
qed

lemma call_DeleteImageAlias_trace:
  "call_DeleteImageAlias c n w = (err, w1) \<Longrightarrow> trace w1 = trace w @ [Call_DeleteImageAlias n err]"
  by (auto simp: call_DeleteImageAlias_def split: prod.splits)

lemma call_CreateImageAlias_trace:
  "call_CreateImageAlias c req w = (err, w1) \<Longrightarrow>
     trace w1 = trace w @ [Call_CreateImageAlias (Name req) (Target req) err]"
  by (auto simp: call_CreateImageAlias_def split: prod.splits)

lemma deleteExisting_trace:
  "\<exists>evs. trace (deleteExisting c xs w) = trace w @ evs \<and>
         alias_ops evs = map (\<lambda>a. Delete_op (Name a)) xs \<and> failures_logged evs"
proof (induction xs arbitrary: w)
  case Nil
  then show ?case by simp
next
  case (Cons a xs)
  obtain err w1 where c: "call_DeleteImageAlias c (Name a) w = (err, w1)"
    by (cases "call_DeleteImageAlias c (Name a) w") auto
  note t = call_DeleteImageAlias_trace [OF c]
  show ?case
  proof (cases err)
    case None
    obtain evs where e: "trace (deleteExisting c xs w1) = trace w1 @ evs"
      "alias_ops evs = map (\<lambda>a. Delete_op (Name a)) xs" "failures_logged evs"
      using Cons.IH [of w1] by blast
    show ?thesis
      using c None t e
      by (intro exI [of _ "Call_DeleteImageAlias (Name a) None # evs"]) simp
  next
    case (Some m)
    let ?w2 = "emit (Println (''Failed to remove alias '' @ Name a)) w1"
    obtain evs where e: "trace (deleteExisting c xs ?w2) = trace ?w2 @ evs"
      "alias_ops evs = map (\<lambda>a. Delete_op (Name a)) xs" "failures_logged evs"
      using Cons.IH [of ?w2] by blast
    show ?thesis
      using c Some t e
      by (intro exI [of _ "Call_DeleteImageAlias (Name a) (Some m) #
            Println (''Failed to remove alias '' @ Name a) # evs"]) (simp add: emit_def)
  qed
qed

lemma createAliases_trace:
  "\<exists>evs. trace (createAliases c xs fp w) = trace w @ evs \<and>
         alias_ops evs = map (\<lambda>a. Create_op (Name a) fp) xs \<and> failures_logged evs"
proof (induction xs arbitrary: w)
  case Nil
  then show ?case by simp
next
  case (Cons a xs)
  obtain err w1 where c: "call_CreateImageAlias c \<lparr>Name = Name a, Target = fp\<rparr> w = (err, w1)"
    by (cases "call_CreateImageAlias c \<lparr>Name = Name a, Target = fp\<rparr> w") auto
  note t = call_CreateImageAlias_trace [OF c]
  show ?case
  proof (cases err)
    case None
    obtain evs where e: "trace (createAliases c xs fp w1) = trace w1 @ evs"
      "alias_ops evs = map (\<lambda>a. Create_op (Name a) fp) xs" "failures_logged evs"
      using Cons.IH [of w1] by blast
    show ?thesis
      using c None t e
      by (intro exI [of _ "Call_CreateImageAlias (Name a) fp None # evs"]) simp
  next
    case (Some m)
    let ?w2 = "emit (Println (''Failed to create alias '' @ Name a)) w1"
    obtain evs where e: "trace (createAliases c xs fp ?w2) = trace ?w2 @ evs"
      "alias_ops evs = map (\<lambda>a. Create_op (Name a) fp) xs" "failures_logged evs"
      using Cons.IH [of ?w2] by blast
    show ?thesis
      using c Some t e
      by (intro exI [of _ "Call_CreateImageAlias (Name a) fp (Some m) #
            Println (''Failed to create alias '' @ Name a) # evs"]) (simp add: emit_def)
  qed
qed

lemma ensureImageAliases_trace:
  assumes "GetImageAliases c (store w) = Inr resp"
  shows "fst (ensureImageAliases c xs fp w) = None \<and>
         (\<exists>evs. trace (snd (ensureImageAliases c xs fp w)) = trace w @ evs \<and>
            alias_ops evs =
              map (\<lambda>e. Delete_op (Name e)) (filter (\<lambda>e. Name e \<in> Name ` set xs) resp) @
              map (\<lambda>a. Create_op (Name a) fp) xs \<and>
            failures_logged evs)"
proof (cases "xs = []")
  case True
  then show ?thesis by (simp add: ensureImageAliases_def)
next
  case False
  let ?names = "sort (map Name xs)"
  let ?w1 = "emit Call_GetImageAliases w"
  let ?ex = "GetExistingAliases ?names resp"
  let ?w2 = "deleteExisting c ?ex ?w1"
  let ?w3 = "createAliases c xs fp ?w2"
  have ex: "?ex = filter (\<lambda>e. Name e \<in> Name ` set xs) resp"
    using GetExistingAliases_sorted [of ?names resp] by simp
  have run: "ensureImageAliases c xs fp w = (None, ?w3)"
    using False assms by (simp add: ensureImageAliases_def call_GetImageAliases_def Let_def)
  obtain e1 where e1: "trace ?w2 = trace ?w1 @ e1"
    "alias_ops e1 = map (\<lambda>a. Delete_op (Name a)) ?ex" "failures_logged e1"
    using deleteExisting_trace [of c ?ex ?w1] by blast
  obtain e2 where e2: "trace ?w3 = trace ?w2 @ e2"
    "alias_ops e2 = map (\<lambda>a. Create_op (Name a) fp) xs" "failures_logged e2"
    using createAliases_trace [of c xs fp ?w2] by blast
  have t: "trace ?w3 = trace w @ (Call_GetImageAliases # e1 @ e2)"
    using e1(1) e2(1) by (simp add: emit_def)
  have a: "alias_ops (Call_GetImageAliases # e1 @ e2) =
      map (\<lambda>e. Delete_op (Name e)) (filter (\<lambda>e. Name e \<in> Name ` set xs) resp) @
      map (\<lambda>a. Create_op (Name a) fp) xs"
    using e1(2) e2(2) ex by (simp add: alias_ops_append)
  have l: "failures_logged (Call_GetImageAliases # e1 @ e2)"
    using failures_logged_append [OF e1(3) e2(3)] by simp
  show ?thesis
    unfolding run using t a l by auto
qed

section \<open>What the alias loops of Update issue\<close>

lemma alias_ops_map_delete:
  "alias_ops (map (\<lambda>n. Call_DeleteImageAlias n e) xs) = map Delete_op xs"
  by (induction xs) simp_all

lemma alias_ops_map_create:
  "alias_ops (map (\<lambda>n. Call_CreateImageAlias n fp e) xs) = map (\<lambda>n. Create_op n fp) xs"
  by (induction xs) simp_all

lemma fail_fast_no_failure:
  "\<forall>ev \<in> set xs. failure_of ev = None \<Longrightarrow> fail_fast r (xs @ ys) = fail_fast r ys"
  by (induction xs) simp_all

lemma deleteRemoved_trace:
  "deleteRemoved c xs w = (r, w') \<Longrightarrow>
     \<exists>evs. trace w' = trace w @ evs \<and> fail_fast (Return r) evs \<and>
           (\<forall>n. Call_GetImageAlias n \<notin> set evs) \<and>
           (r = None \<longrightarrow> evs = map (\<lambda>n. Call_DeleteImageAlias n None) xs)"
proof (induction xs arbitrary: w)
  case Nil
  then show ?case by simp
next
  case (Cons a xs)
  obtain err w1 where c: "call_DeleteImageAlias c a w = (err, w1)"
    by (cases "call_DeleteImageAlias c a w") auto
  note t = call_DeleteImageAlias_trace [OF c]
  show ?case
  proof (cases err)
    case (Some m)
    then have "r = Some m" "w' = w1" using Cons.prems c by simp_all
    then show ?thesis using t Some
      by (intro exI [of _ "[Call_DeleteImageAlias a (Some m)]"]) simp
  next
    case None
    then have "deleteRemoved c xs w1 = (r, w')" using Cons.prems c by simp
    from Cons.IH [OF this] obtain evs where e: "trace w' = trace w1 @ evs"
      "fail_fast (Return r) evs" "\<forall>n. Call_GetImageAlias n \<notin> set evs"
      "r = None \<longrightarrow> evs = map (\<lambda>n. Call_DeleteImageAlias n None) xs"
      by blast
    show ?thesis using t None e
      by (intro exI [of _ "Call_DeleteImageAlias a None # evs"]) simp
  qed
qed

lemma addNew_trace:
  "addNew c fp xs w = (r, w') \<Longrightarrow>
     \<exists>evs. trace w' = trace w @ evs \<and> fail_fast (Return r) evs \<and>
           (\<forall>n. Call_GetImageAlias n \<notin> set evs) \<and>
           (r = None \<longrightarrow> evs = map (\<lambda>n. Call_CreateImageAlias n fp None) xs)"
proof (induction xs arbitrary: w)
  case Nil
  then show ?case by simp
next
  case (Cons a xs)
  obtain err w1 where c: "call_CreateImageAlias c \<lparr>Name = a, Target = fp\<rparr> w = (err, w1)"
    by (cases "call_CreateImageAlias c \<lparr>Name = a, Target = fp\<rparr> w") auto
  note t = call_CreateImageAlias_trace [OF c]
  show ?case
  proof (cases err)
    case (Some m)
    then have "r = Some m" "w' = w1" using Cons.prems c by simp_all
    then show ?thesis using t Some
      by (intro exI [of _ "[Call_CreateImageAlias a fp (Some m)]"]) simp
  next
    case None
    then have "addNew c fp xs w1 = (r, w')" using Cons.prems c by simp
    from Cons.IH [OF this] obtain evs where e: "trace w' = trace w1 @ evs"
      "fail_fast (Return r) evs" "\<forall>n. Call_GetImageAlias n \<notin> set evs"
      "r = None \<longrightarrow> evs = map (\<lambda>n. Call_CreateImageAlias n fp None) xs"
      by blast
    show ?thesis using t None e
      by (intro exI [of _ "Call_CreateImageAlias a fp None # evs"]) simp
  qed
qed

text \<open>The two loops of Update, one after the other.\<close>

lemma update_loops_trace:
  assumes d: "deleteRemoved c ds w = (r1, w1)"
    and a: "addNew c fp cs w1 = (r2, w2)"
    and r: "r = (if r1 = None then r2 else r1)"
    and w': "w' = (if r1 = None then w2 else w1)"
  shows "\<exists>evs. trace w' = trace w @ evs \<and> fail_fast (Return r) evs \<and>
           (\<forall>n. Call_GetImageAlias n \<notin> set evs) \<and>
           (r = None \<longrightarrow>
              evs = map (\<lambda>n. Call_DeleteImageAlias n None) ds @
                    map (\<lambda>n. Call_CreateImageAlias n fp None) cs)"
proof -
  from deleteRemoved_trace [OF d] obtain e1 where e1: "trace w1 = trace w @ e1"
    "fail_fast (Return r1) e1" "\<forall>n. Call_GetImageAlias n \<notin> set e1"
    "r1 = None \<longrightarrow> e1 = map (\<lambda>n. Call_DeleteImageAlias n None) ds"
    by blast
  show ?thesis
  proof (cases r1)
    case (Some m)
    then show ?thesis using e1 r w' by (intro exI [of _ e1]) simp
  next
    case None
    from addNew_trace [OF a] obtain e2 where e2: "trace w2 = trace w1 @ e2"
      "fail_fast (Return r2) e2" "\<forall>n. Call_GetImageAlias n \<notin> set e2"
      "r2 = None \<longrightarrow> e2 = map (\<lambda>n. Call_CreateImageAlias n fp None) cs"
      by blast
    have e1m: "e1 = map (\<lambda>n. Call_DeleteImageAlias n None) ds" using e1(4) None by simp
    have nf: "\<forall>ev \<in> set e1. failure_of ev = None" unfolding e1m by auto
    have ff: "fail_fast (Return r2) (e1 @ e2)"
      using fail_fast_no_failure [OF nf] e2(2) by simp
    show ?thesis using None e1 e2 ff e1m r w'
      by (intro exI [of _ "e1 @ e2"]) auto
  qed
qed

lemma Update_trace:
  assumes "resourceLxdBuiltImageUpdate h d m w = (r, w')"
  shows "\<exists>evs. trace w' = trace w @ evs \<and> fail_fast r evs \<and>
           (\<forall>n. Call_GetImageAlias n \<notin> set evs) \<and>
           (\<forall>p ident. m = Provider p \<and> r = Return None \<and>
                newbuiltImageIDFromResourceID (d_Id d) = Return ident \<longrightarrow>
              evs = map (\<lambda>n. Call_DeleteImageAlias n None)
                      (List_of h (Difference (NewSet (d_aliases_old d)) (NewSet (d_aliases d)))) @
                    map (\<lambda>n. Call_CreateImageAlias n (fingerprint ident) None)
                      (List_of h (Difference (NewSet (d_aliases d)) (NewSet (d_aliases_old d)))))"
proof (cases m)
  case (OsFile f)
  then show ?thesis using assms
    by (intro exI [of _ "[]"]) (auto simp: resourceLxdBuiltImageUpdate_def assert_lxdProvider_def)
next
  case (Provider p)
  show ?thesis
  proof (cases "GetContainerServer p (selectRemote p d)")
    case (Inl err)
    then show ?thesis using assms Provider
      by (intro exI [of _ "[]"]) (auto simp: resourceLxdBuiltImageUpdate_def assert_lxdProvider_def)
  next
    case (Inr server)
    show ?thesis
    proof (cases "newbuiltImageIDFromResourceID (d_Id d)")
      case (Panic msg)
      then show ?thesis using assms Provider Inr
        by (intro exI [of _ "[]"]) (auto simp: resourceLxdBuiltImageUpdate_def assert_lxdProvider_def)
    next
      case (Return ident)
      let ?ds = "List_of h (Difference (NewSet (d_aliases_old d)) (NewSet (d_aliases d)))"
      let ?cs = "List_of h (Difference (NewSet (d_aliases d)) (NewSet (d_aliases_old d)))"
      show ?thesis
      proof (cases "d_aliases_old d = d_aliases d")
        case True
        then have "r = Return None" "w' = w" using assms Provider Inr Return
          by (auto simp: resourceLxdBuiltImageUpdate_def assert_lxdProvider_def)
        moreover have "?ds = []" "?cs = []" using True
          by (simp_all add: List_of_def Difference_def NewSet_def Contains_def)
        ultimately show ?thesis using Return by (intro exI [of _ "[]"]) simp
      next
        case False
        obtain r1 w1 where dl: "deleteRemoved server ?ds w = (r1, w1)"
          by (cases "deleteRemoved server ?ds w") auto
        obtain r2 w2 where ad: "addNew server (fingerprint ident) ?cs w1 = (r2, w2)"
          by (cases "addNew server (fingerprint ident) ?cs w1") auto
        have res: "r = Return (if r1 = None then r2 else r1)" "w' = (if r1 = None then w2 else w1)"
          using assms Provider Inr Return False dl ad
          by (auto simp: resourceLxdBuiltImageUpdate_def assert_lxdProvider_def Let_def
              split: option.splits)
        define r0 where "r0 = (if r1 = None then r2 else r1)"
        from update_loops_trace [OF dl ad r0_def res(2)] obtain evs where
          e: "trace w' = trace w @ evs"
          "fail_fast (Return r0) evs"
          "\<forall>n. Call_GetImageAlias n \<notin> set evs"
          "r0 = None \<longrightarrow>
              evs = map (\<lambda>n. Call_DeleteImageAlias n None) ?ds @
                    map (\<lambda>n. Call_CreateImageAlias n (fingerprint ident) None) ?cs"
          by blast
        have rr: "r = Return r0" using res(1) r0_def by simp
        show ?thesis unfolding rr using e Return
          by (intro exI [of _ evs]) auto
      qed
    qed
  qed
qed

section \<open>The alias reconciler\<close>

lemma set_Difference: "set (List_of h (Difference (NewSet xs) (NewSet ys))) = set xs - set ys"
  by (auto simp: List_of_def Difference_def NewSet_def Contains_def)

lemma distinct_Difference: "distinct (List_of h (Difference (NewSet xs) (NewSet ys)))"
  by (simp add: List_of_def Difference_def NewSet_def)

lemma reconciles_lists:
  assumes "distinct ds" "set ds = A - B" "distinct cs" "set cs = B - A"
  shows "reconciles A B fp (map Delete_op ds @ map (\<lambda>n. Create_op n fp) cs)"
proof -
  let ?ops = "map Delete_op ds @ map (\<lambda>n. Create_op n fp) cs"
  have f1: "filter is_Delete ?ops = map Delete_op ds"
    by (simp add: filter_map o_def)
  have f2: "filter (creates_to fp) ?ops = map (\<lambda>n. Create_op n fp) cs"
    by (simp add: filter_map o_def)
  have "dropWhile is_Delete ?ops = dropWhile is_Delete (map (\<lambda>n. Create_op n fp) cs)"
    by (rule dropWhile_append2) auto
  also have "\<dots> = map (\<lambda>n. Create_op n fp) cs"
    by (cases cs) simp_all
  finally have f3: "dropWhile is_Delete ?ops = map (\<lambda>n. Create_op n fp) cs" .
  have l: "list_all (creates_to fp) (map (\<lambda>n. Create_op n fp) cs)"
    by (simp add: list_all_iff)
  show ?thesis
    unfolding reconciles_def f1 f2 f3
    using assms l distinct_card [of ds] distinct_card [of cs] by simp
qed

section \<open>Worked runs of the alias reconciler\<close>

lemma Update_example_ok:
  "resourceLxdBuiltImageUpdate (length :: string \<Rightarrow> nat) (resourceWith [''a'', ''bb''] [''c''])
     (Provider simpleProvider)
     (storeWith [\<lparr>Name = ''bb'', Target = ''f00d''\<rparr>, \<lparr>Name = ''a'', Target = ''f00d''\<rparr>]) =
   (Return None,
    \<lparr>store = \<lparr>images = [(''f00d'', 7)], alias_table = [\<lparr>Name = ''c'', Target = ''f00d''\<rparr>]\<rparr>,
     trace = [Call_DeleteImageAlias ''a'' None, Call_DeleteImageAlias ''bb'' None,
              Call_CreateImageAlias ''c'' ''f00d'' None]\<rparr>)"
  by (simp add: resourceLxdBuiltImageUpdate_def assert_lxdProvider_def simpleProvider_def
      simpleStore_def newResource_def resourceWith_def storeWith_def parse_slash NewSet_def
      Difference_def Contains_def List_of_def call_DeleteImageAlias_def
      call_CreateImageAlias_def)

lemma Update_example_failing:
  "resourceLxdBuiltImageUpdate (length :: string \<Rightarrow> nat) (resourceWith [''a'', ''bb''] [''c''])
     (Provider simpleProvider) (storeWith [\<lparr>Name = ''bb'', Target = ''f00d''\<rparr>]) =
   (Return (Some ''not found''),
    \<lparr>store = \<lparr>images = [(''f00d'', 7)], alias_table = [\<lparr>Name = ''bb'', Target = ''f00d''\<rparr>]\<rparr>,
     trace = [Call_DeleteImageAlias ''a'' (Some ''not found'')]\<rparr>)"
  by (simp add: resourceLxdBuiltImageUpdate_def assert_lxdProvider_def simpleProvider_def
      simpleStore_def newResource_def resourceWith_def storeWith_def parse_slash NewSet_def
      Difference_def Contains_def List_of_def call_DeleteImageAlias_def
      call_CreateImageAlias_def)

lemma ensure_example_other:
  "ensureImageAliases simpleStore [\<lparr>Name = ''y''\<rparr>] ''f00d''
     (storeWith [\<lparr>Name = ''x'', Target = ''beef''\<rparr>]) =
   (None,
    \<lparr>store = \<lparr>images = [(''f00d'', 7)],
              alias_table = [\<lparr>Name = ''x'', Target = ''beef''\<rparr>, \<lparr>Name = ''y'', Target = ''f00d''\<rparr>]\<rparr>,
     trace = [Call_GetImageAliases, Call_CreateImageAlias ''y'' ''f00d'' None]\<rparr>)"
  by (simp add: ensureImageAliases_def GetExistingAliases_sorted simpleStore_def storeWith_def
      call_GetImageAliases_def call_DeleteImageAlias_def call_CreateImageAlias_def emit_def)

lemma ensure_example_twice:
  "ensureImageAliases simpleStore [\<lparr>Name = ''y''\<rparr>, \<lparr>Name = ''x''\<rparr>, \<lparr>Name = ''y''\<rparr>] ''f00d''
     (storeWith [\<lparr>Name = ''x'', Target = ''beef''\<rparr>]) =
   (None,
    \<lparr>store = \<lparr>images = [(''f00d'', 7)],
              alias_table = [\<lparr>Name = ''y'', Target = ''f00d''\<rparr>, \<lparr>Name = ''x'', Target = ''f00d''\<rparr>]\<rparr>,
     trace = [Call_GetImageAliases, Call_DeleteImageAlias ''x'' None,
              Call_CreateImageAlias ''y'' ''f00d'' None, Call_CreateImageAlias ''x'' ''f00d'' None,
              Call_CreateImageAlias ''y'' ''f00d'' (Some ''already exists''),
              Println ''Failed to create alias y'']\<rparr>)"
  by (simp add: ensureImageAliases_def GetExistingAliases_sorted simpleStore_def storeWith_def
      call_GetImageAliases_def call_DeleteImageAlias_def call_CreateImageAlias_def emit_def)

section \<open>The reconciliation of aliases, in Update and at creation\<close>

text \<open>
  Claim C1, as the code has it. For the alias names \<open>A\<close> of the prior state and \<open>B\<close> of
  the configuration, an Update that returns no error has issued one delete for each name
  of \<open>A - B\<close>, then one create for each name of \<open>B - A\<close>, every create bound to the
  fingerprint of the identity, and nothing else on aliases. ensureImageAliases, once the
  store has listed its aliases, issues one delete for every listed entry whose name is
  among the requested names (the names the store and the request share, not the names
  only the store has), and then one create for every requested alias in the order of the
  request (all of them, not only those the store lacks), every create bound to the target
  fingerprint; all its deletes come before its creates.
\<close>

theorem reconcile_as_coded:
  "(resourceLxdBuiltImageUpdate h d (Provider p) w = (Return None, w') \<and>
    newbuiltImageIDFromResourceID (d_Id d) = Return ident \<longrightarrow>
      reconciles (set (d_aliases_old d)) (set (d_aliases d)) (fingerprint ident)
        (alias_ops (issued w w')) \<and>
      (\<exists>ds cs. alias_ops (issued w w') =
                 map Delete_op ds @ map (\<lambda>n. Create_op n (fingerprint ident)) cs \<and>
               distinct ds \<and> set ds = set (d_aliases_old d) - set (d_aliases d) \<and>
               distinct cs \<and> set cs = set (d_aliases d) - set (d_aliases_old d))) \<and>
   (GetImageAliases c (store v) = Inr resp \<longrightarrow>
      alias_ops (issued v (snd (ensureImageAliases c xs fp v))) =
        map (\<lambda>e. Delete_op (Name e)) (filter (\<lambda>e. Name e \<in> Name ` set xs) resp) @
        map (\<lambda>a. Create_op (Name a) fp) xs)"
proof (intro conjI impI)
  assume h: "resourceLxdBuiltImageUpdate h d (Provider p) w = (Return None, w') \<and>
    newbuiltImageIDFromResourceID (d_Id d) = Return ident"
  let ?ds = "List_of h (Difference (NewSet (d_aliases_old d)) (NewSet (d_aliases d)))"
  let ?cs = "List_of h (Difference (NewSet (d_aliases d)) (NewSet (d_aliases_old d)))"
  from h Update_trace [of h d "Provider p" w "Return None" w']
  have "trace w' = trace w @ (map (\<lambda>n. Call_DeleteImageAlias n None) ?ds @
          map (\<lambda>n. Call_CreateImageAlias n (fingerprint ident) None) ?cs)"
    by auto
  then have ops: "alias_ops (issued w w') =
      map Delete_op ?ds @ map (\<lambda>n. Create_op n (fingerprint ident)) ?cs"
    by (simp add: issued_append alias_ops_append alias_ops_map_delete alias_ops_map_create)
  show "reconciles (set (d_aliases_old d)) (set (d_aliases d)) (fingerprint ident)
        (alias_ops (issued w w'))"
    unfolding ops
    by (rule reconciles_lists) (simp_all add: set_Difference distinct_Difference)
  show "\<exists>ds cs. alias_ops (issued w w') =
                 map Delete_op ds @ map (\<lambda>n. Create_op n (fingerprint ident)) cs \<and>
               distinct ds \<and> set ds = set (d_aliases_old d) - set (d_aliases d) \<and>
               distinct cs \<and> set cs = set (d_aliases d) - set (d_aliases_old d)"
    using ops set_Difference distinct_Difference by blast
next
  assume g: "GetImageAliases c (store v) = Inr resp"
  from ensureImageAliases_trace [OF g, of xs fp] obtain evs where
    e: "trace (snd (ensureImageAliases c xs fp v)) = trace v @ evs"
    "alias_ops evs =
        map (\<lambda>e. Delete_op (Name e)) (filter (\<lambda>e. Name e \<in> Name ` set xs) resp) @
        map (\<lambda>a. Create_op (Name a) fp) xs"
    by blast
  show "alias_ops (issued v (snd (ensureImageAliases c xs fp v))) =
        map (\<lambda>e. Delete_op (Name e)) (filter (\<lambda>e. Name e \<in> Name ` set xs) resp) @
        map (\<lambda>a. Create_op (Name a) fp) xs"
    using e by (simp add: issued_append)
qed

theorem reconcile_as_coded_witness:
  "resourceLxdBuiltImageUpdate (length :: string \<Rightarrow> nat) (resourceWith [''a'', ''bb''] [''c''])
     (Provider simpleProvider)
     (storeWith [\<lparr>Name = ''bb'', Target = ''f00d''\<rparr>, \<lparr>Name = ''a'', Target = ''f00d''\<rparr>]) =
   (Return None,
    \<lparr>store = \<lparr>images = [(''f00d'', 7)], alias_table = [\<lparr>Name = ''c'', Target = ''f00d''\<rparr>]\<rparr>,
     trace = [Call_DeleteImageAlias ''a'' None, Call_DeleteImageAlias ''bb'' None,
              Call_CreateImageAlias ''c'' ''f00d'' None]\<rparr>) \<and>
   newbuiltImageIDFromResourceID ''local/f00d'' = Return \<lparr>remote = ''local'', fingerprint = ''f00d''\<rparr> \<and>
   reconciles {''a'', ''bb''} {''c''} ''f00d''
     [Delete_op ''a'', Delete_op ''bb'', Create_op ''c'' ''f00d''] \<and>
   GetImageAliases simpleStore (store (storeWith [\<lparr>Name = ''x'', Target = ''beef''\<rparr>])) =
     Inr [\<lparr>Name = ''x'', Target = ''beef''\<rparr>] \<and>
   alias_ops (issued (storeWith [\<lparr>Name = ''x'', Target = ''beef''\<rparr>])
     (snd (ensureImageAliases simpleStore [\<lparr>Name = ''y''\<rparr>, \<lparr>Name = ''x''\<rparr>, \<lparr>Name = ''y''\<rparr>] ''f00d''
            (storeWith [\<lparr>Name = ''x'', Target = ''beef''\<rparr>])))) =
     [Delete_op ''x'', Create_op ''y'' ''f00d'', Create_op ''x'' ''f00d'', Create_op ''y'' ''f00d'']"
proof -
  let ?d = "resourceWith [''a'', ''bb''] [''c'']"
  let ?w = "storeWith [\<lparr>Name = ''bb'', Target = ''f00d''\<rparr>, \<lparr>Name = ''a'', Target = ''f00d''\<rparr>]"
  let ?w' = "\<lparr>store = \<lparr>images = [(''f00d'', 7)], alias_table = [\<lparr>Name = ''c'', Target = ''f00d''\<rparr>]\<rparr>,
     trace = [Call_DeleteImageAlias ''a'' None, Call_DeleteImageAlias ''bb'' None,
              Call_CreateImageAlias ''c'' ''f00d'' None]\<rparr>"
  let ?ident = "\<lparr>remote = ''local'', fingerprint = ''f00d''\<rparr>"
  let ?v = "storeWith [\<lparr>Name = ''x'', Target = ''beef''\<rparr>]"
  let ?xs = "[\<lparr>Name = ''y''\<rparr>, \<lparr>Name = ''x''\<rparr>, \<lparr>Name = ''y''\<rparr>]"
  have u: "resourceLxdBuiltImageUpdate (length :: string \<Rightarrow> nat) ?d (Provider simpleProvider) ?w =
      (Return None, ?w')"
    by (rule Update_example_ok)
  have p: "newbuiltImageIDFromResourceID (d_Id ?d) = Return ?ident"
    by (simp add: resourceWith_def newResource_def parse_slash)
  have g: "GetImageAliases simpleStore (store ?v) = Inr [\<lparr>Name = ''x'', Target = ''beef''\<rparr>]"
    by (simp add: simpleStore_def storeWith_def)
  note t = reconcile_as_coded [where h = "length :: string \<Rightarrow> nat" and d = ?d
      and p = simpleProvider and w = ?w and w' = ?w' and ident = ?ident and c = simpleStore
      and v = ?v and resp = "[\<lparr>Name = ''x'', Target = ''beef''\<rparr>]" and xs = ?xs and fp = "''f00d''"]
  have r1: "reconciles (set (d_aliases_old ?d)) (set (d_aliases ?d)) (fingerprint ?ident)
      (alias_ops (issued ?w ?w'))"
    using t u p by blast
  have r2: "alias_ops (issued ?v (snd (ensureImageAliases simpleStore ?xs ''f00d'' ?v))) =
      map (\<lambda>e. Delete_op (Name e))
        (filter (\<lambda>e. Name e \<in> Name ` set ?xs) [\<lparr>Name = ''x'', Target = ''beef''\<rparr>]) @
      map (\<lambda>a. Create_op (Name a) ''f00d'') ?xs"
    using t g by blast
  have r1': "reconciles {''a'', ''bb''} {''c''} ''f00d''
      [Delete_op ''a'', Delete_op ''bb'', Create_op ''c'' ''f00d'']"
    using r1 by (simp add: resourceWith_def newResource_def storeWith_def issued_def)
  show ?thesis
    using u p g r1' r2 by (simp add: resourceWith_def newResource_def)
qed

text \<open>
  The reconciliation as claim C1 words it fails in both contexts. At creation, with
  \<open>x\<close> on the store and \<open>y\<close> requested, no delete is issued where \<open>A - B\<close> has one
  name. In Update, with \<open>a\<close> and \<open>bb\<close> to remove and \<open>c\<close> to add on a store that has
  no \<open>a\<close>, the first delete fails and nothing more is issued.
\<close>

theorem reconcile_claim_counterexample:
  "\<not> reconciles {''x''} {''y''} ''f00d''
       (alias_ops (issued (storeWith [\<lparr>Name = ''x'', Target = ''beef''\<rparr>])
          (snd (ensureImageAliases simpleStore [\<lparr>Name = ''y''\<rparr>] ''f00d''
                 (storeWith [\<lparr>Name = ''x'', Target = ''beef''\<rparr>]))))) \<and>
   \<not> reconciles {''a'', ''bb''} {''c''} ''f00d''
       (alias_ops (issued (storeWith [\<lparr>Name = ''bb'', Target = ''f00d''\<rparr>])
          (snd (resourceLxdBuiltImageUpdate (length :: string \<Rightarrow> nat)
                 (resourceWith [''a'', ''bb''] [''c'']) (Provider simpleProvider)
                 (storeWith [\<lparr>Name = ''bb'', Target = ''f00d''\<rparr>])))))"
  unfolding ensure_example_other Update_example_failing
  by (simp add: issued_def storeWith_def reconciles_def)

section \<open>Failures of single alias operations\<close>

text \<open>
  Claim C6, as the code has it. In ensureImageAliases a failed delete or create of one
  alias is printed, the remaining aliases are still processed (every delete and every
  create is issued whatever failed before), and the call returns no error. In Update
  the first failed delete or create ends the operation: it is the last call issued, and
  its error is what Update returns.
\<close>

theorem alias_failures_as_coded:
  "(GetImageAliases c (store v) = Inr resp \<longrightarrow>
      fst (ensureImageAliases c xs fp v) = None \<and>
      alias_ops (issued v (snd (ensureImageAliases c xs fp v))) =
        map (\<lambda>e. Delete_op (Name e)) (filter (\<lambda>e. Name e \<in> Name ` set xs) resp) @
        map (\<lambda>a. Create_op (Name a) fp) xs \<and>
      failures_logged (issued v (snd (ensureImageAliases c xs fp v)))) \<and>
   fail_fast (fst (resourceLxdBuiltImageUpdate h d m w))
     (issued w (snd (resourceLxdBuiltImageUpdate h d m w)))"
proof (intro conjI impI)
  assume g: "GetImageAliases c (store v) = Inr resp"
  from ensureImageAliases_trace [OF g, of xs fp] obtain evs where
    e: "trace (snd (ensureImageAliases c xs fp v)) = trace v @ evs"
    "alias_ops evs =
        map (\<lambda>e. Delete_op (Name e)) (filter (\<lambda>e. Name e \<in> Name ` set xs) resp) @
        map (\<lambda>a. Create_op (Name a) fp) xs"
    "failures_logged evs"
    and n: "fst (ensureImageAliases c xs fp v) = None"
    by blast
  show "fst (ensureImageAliases c xs fp v) = None" by (rule n)
  show "alias_ops (issued v (snd (ensureImageAliases c xs fp v))) =
        map (\<lambda>e. Delete_op (Name e)) (filter (\<lambda>e. Name e \<in> Name ` set xs) resp) @
        map (\<lambda>a. Create_op (Name a) fp) xs"
    using e by (simp add: issued_append)
  show "failures_logged (issued v (snd (ensureImageAliases c xs fp v)))"
    using e by (simp add: issued_append)
next
  obtain r w' where u: "resourceLxdBuiltImageUpdate h d m w = (r, w')"
    by (cases "resourceLxdBuiltImageUpdate h d m w") auto
  from Update_trace [OF u] obtain evs where "trace w' = trace w @ evs" "fail_fast r evs"
    by blast
  then show "fail_fast (fst (resourceLxdBuiltImageUpdate h d m w))
     (issued w (snd (resourceLxdBuiltImageUpdate h d m w)))"
    unfolding u by (simp add: issued_append)
qed

theorem alias_failures_as_coded_witness:
  "GetImageAliases simpleStore (store (storeWith [\<lparr>Name = ''x'', Target = ''beef''\<rparr>])) =
     Inr [\<lparr>Name = ''x'', Target = ''beef''\<rparr>] \<and>
   issued (storeWith [\<lparr>Name = ''x'', Target = ''beef''\<rparr>])
     (snd (ensureImageAliases simpleStore [\<lparr>Name = ''y''\<rparr>, \<lparr>Name = ''x''\<rparr>, \<lparr>Name = ''y''\<rparr>] ''f00d''
            (storeWith [\<lparr>Name = ''x'', Target = ''beef''\<rparr>]))) =
     [Call_GetImageAliases, Call_DeleteImageAlias ''x'' None,
      Call_CreateImageAlias ''y'' ''f00d'' None, Call_CreateImageAlias ''x'' ''f00d'' None,
      Call_CreateImageAlias ''y'' ''f00d'' (Some ''already exists''),
      Println ''Failed to create alias y''] \<and>
   fst (ensureImageAliases simpleStore [\<lparr>Name = ''y''\<rparr>, \<lparr>Name = ''x''\<rparr>, \<lparr>Name = ''y''\<rparr>] ''f00d''
          (storeWith [\<lparr>Name = ''x'', Target = ''beef''\<rparr>])) = None \<and>
   failures_logged (issued (storeWith [\<lparr>Name = ''x'', Target = ''beef''\<rparr>])
     (snd (ensureImageAliases simpleStore [\<lparr>Name = ''y''\<rparr>, \<lparr>Name = ''x''\<rparr>, \<lparr>Name = ''y''\<rparr>] ''f00d''
            (storeWith [\<lparr>Name = ''x'', Target = ''beef''\<rparr>])))) \<and>
   fail_fast (Return (Some ''not found'')) [Call_DeleteImageAlias ''a'' (Some ''not found'')] \<and>
   resourceLxdBuiltImageUpdate (length :: string \<Rightarrow> nat) (resourceWith [''a'', ''bb''] [''c''])
     (Provider simpleProvider) (storeWith [\<lparr>Name = ''bb'', Target = ''f00d''\<rparr>]) =
   (Return (Some ''not found''),
    \<lparr>store = \<lparr>images = [(''f00d'', 7)], alias_table = [\<lparr>Name = ''bb'', Target = ''f00d''\<rparr>]\<rparr>,
     trace = [Call_DeleteImageAlias ''a'' (Some ''not found'')]\<rparr>)"
proof -
  let ?v = "storeWith [\<lparr>Name = ''x'', Target = ''beef''\<rparr>]"
  let ?xs = "[\<lparr>Name = ''y''\<rparr>, \<lparr>Name = ''x''\<rparr>, \<lparr>Name = ''y''\<rparr>]"
  let ?d = "resourceWith [''a'', ''bb''] [''c'']"
  let ?w = "storeWith [\<lparr>Name = ''bb'', Target = ''f00d''\<rparr>]"
  have g: "GetImageAliases simpleStore (store ?v) = Inr [\<lparr>Name = ''x'', Target = ''beef''\<rparr>]"
    by (simp add: simpleStore_def storeWith_def)
  note t = alias_failures_as_coded [where c = simpleStore and v = ?v
      and resp = "[\<lparr>Name = ''x'', Target = ''beef''\<rparr>]" and xs = ?xs and fp = "''f00d''"
      and h = "length :: string \<Rightarrow> nat" and d = ?d and m = "Provider simpleProvider" and w = ?w]
  have a: "fst (ensureImageAliases simpleStore ?xs ''f00d'' ?v) = None"
    and b: "failures_logged (issued ?v (snd (ensureImageAliases simpleStore ?xs ''f00d'' ?v)))"
    using t g by blast+
  have c: "fail_fast (fst (resourceLxdBuiltImageUpdate (length :: string \<Rightarrow> nat) ?d
        (Provider simpleProvider) ?w))
      (issued ?w (snd (resourceLxdBuiltImageUpdate (length :: string \<Rightarrow> nat) ?d
        (Provider simpleProvider) ?w)))"
    using t by blast
  have c': "fail_fast (Return (Some ''not found'')) [Call_DeleteImageAlias ''a'' (Some ''not found'')]"
    using c unfolding Update_example_failing by (simp add: issued_def storeWith_def)
  have i: "issued ?v (snd (ensureImageAliases simpleStore ?xs ''f00d'' ?v)) =
     [Call_GetImageAliases, Call_DeleteImageAlias ''x'' None,
      Call_CreateImageAlias ''y'' ''f00d'' None, Call_CreateImageAlias ''x'' ''f00d'' None,
      Call_CreateImageAlias ''y'' ''f00d'' (Some ''already exists''),
      Println ''Failed to create alias y'']"
    unfolding ensure_example_twice by (simp add: issued_def storeWith_def)
  show ?thesis
    using g i a b c' Update_example_failing by (intro conjI)
qed

text \<open>
  Update is not best-effort as claim C6 words it: when the delete of \<open>a\<close> fails, Update
  does not return nil and does not go on to delete \<open>bb\<close> and create \<open>c\<close>.
\<close>

theorem best_effort_claim_counterexample:
  "\<not> (fst (resourceLxdBuiltImageUpdate (length :: string \<Rightarrow> nat)
            (resourceWith [''a'', ''bb''] [''c'']) (Provider simpleProvider)
            (storeWith [\<lparr>Name = ''bb'', Target = ''f00d''\<rparr>])) = Return None \<and>
      alias_ops (issued (storeWith [\<lparr>Name = ''bb'', Target = ''f00d''\<rparr>])
        (snd (resourceLxdBuiltImageUpdate (length :: string \<Rightarrow> nat)
               (resourceWith [''a'', ''bb''] [''c'']) (Provider simpleProvider)
               (storeWith [\<lparr>Name = ''bb'', Target = ''f00d''\<rparr>])))) =
        [Delete_op ''a'', Delete_op ''bb'', Create_op ''c'' ''f00d''])"
  unfolding Update_example_failing by simp

section \<open>The stages of Create before the upload\<close>

lemma creates_nothingI:
  "store w' = store w \<Longrightarrow> trace w' = trace w @ evs \<Longrightarrow> \<forall>ev \<in> set evs. \<not> is_creation ev \<Longrightarrow>
     creates_nothing w w'"
  by (simp add: creates_nothing_def issued_def list_ex_iff)

lemma creates_nothing_refl: "creates_nothing w w"
  by (simp add: creates_nothing_def issued_def)

lemma creates_nothing_trans:
  assumes "creates_nothing a b" and "creates_nothing b c"
  shows "creates_nothing a c"
proof -
  have t: "trace c = trace a @ (issued a b @ issued b c)"
    using assms by (simp add: creates_nothing_def)
  have "\<forall>ev \<in> set (issued a b @ issued b c). \<not> is_creation ev"
    using assms by (auto simp: creates_nothing_def list_ex_iff)
  moreover have "store c = store a" using assms by (simp add: creates_nothing_def)
  ultimately show ?thesis using t by (rule creates_nothingI [rotated 2])
qed

lemma creates_nothing_emit: "\<not> is_creation e \<Longrightarrow> creates_nothing w (emit e w)"
  by (simp add: creates_nothing_def issued_def emit_def)

lemma creates_nothing_deferred:
  "\<forall>ev \<in> set deferred. \<not> is_creation ev \<Longrightarrow> creates_nothing w (run_deferred deferred w)"
  by (simp add: creates_nothing_def issued_def run_deferred_def list_ex_iff)

lemma create_build_facts:
  assumes "create_build env d w = (r, dir, deferred, w1)"
  shows "creates_nothing w w1 \<and> (\<forall>ev \<in> set deferred. \<not> is_creation ev)"
  using assms
  by (auto simp: create_build_def emit_def Let_def creates_nothing_def issued_def
      split: sum.splits option.splits)

lemma check_artifacts_facts: "creates_nothing w (check_artifacts env dir w)"
  by (simp add: check_artifacts_def Let_def creates_nothing_def issued_def emit_def)

lemma lookup_fingerprint_facts:
  "lookup_fingerprint srv dstName d w = (r, w') \<Longrightarrow> creates_nothing w w'"
  by (auto simp: lookup_fingerprint_def call_GetImage_def creates_nothing_def issued_def emit_def
      split: if_splits sum.splits)

lemma checkAliases_facts:
  "checkAliases srv names acc w = (res, w') \<Longrightarrow> creates_nothing w w'"
proof (induction names arbitrary: acc w)
  case Nil
  then show ?case by (simp add: creates_nothing_refl)
next
  case (Cons a names)
  have e: "creates_nothing w (emit (Call_GetImageAlias a) w)"
    by (rule creates_nothing_emit) simp
  show ?case
  proof (cases "fst (GetImageAlias srv a (store w))")
    case (Some x)
    then have "w' = emit (Call_GetImageAlias a) w"
      using Cons.prems by (simp add: call_GetImageAlias_def)
    then show ?thesis using e by simp
  next
    case None
    then have "checkAliases srv names (acc @ [\<lparr>Name = a\<rparr>]) (emit (Call_GetImageAlias a) w) = (res, w')"
      using Cons.prems by (simp add: call_GetImageAlias_def)
    from Cons.IH [OF this] e show ?thesis by (rule creates_nothing_trans [rotated])
  qed
qed

lemma checkAliases_conflict:
  "find (\<lambda>a. fst (GetImageAlias srv a (store w)) \<noteq> None) names = Some a \<Longrightarrow>
     fst (checkAliases srv names acc w) = Inl (''Image alias already exists on destination: '' @ a)"
proof (induction names arbitrary: acc w)
  case Nil
  then show ?case by simp
next
  case (Cons b names)
  show ?case
  proof (cases "fst (GetImageAlias srv b (store w))")
    case (Some e)
    then have "a = b" using Cons.prems by simp
    then show ?thesis using Some by (simp add: call_GetImageAlias_def)
  next
    case None
    then have f: "find (\<lambda>a. fst (GetImageAlias srv a (store (emit (Call_GetImageAlias b) w))) \<noteq> None)
        names = Some a"
      using Cons.prems by (simp add: emit_def)
    show ?thesis
      using None Cons.IH [OF f] by (simp add: call_GetImageAlias_def)
  qed
qed

lemma requested_aliases_facts:
  "requested_aliases srv d w = (res, w') \<Longrightarrow> creates_nothing w w'"
  using checkAliases_facts [of srv "d_aliases d" "[]" w res w']
  by (auto simp: requested_aliases_def creates_nothing_refl split: if_splits)

lemma create_transfer_facts:
  assumes "create_transfer env srv dstName mf rf al d m deferred w = (r, d', deferred', w')"
  shows "d' = d \<and> r \<noteq> Return None \<and> deferred' = deferred \<and> creates_nothing w w'"
  using assms
  by (auto simp: create_transfer_def defer_Close_def os_Open_def emit_def Let_def
      creates_nothing_def issued_def split: fstatus.splits)

lemma create_import_facts:
  assumes "create_import env dir d m deferred w = (r, d', deferred', w')"
  shows "d' = d \<and> r \<noteq> Return None \<and> deferred' = deferred \<and> creates_nothing w w'"
proof (cases m)
  case (OsFile f)
  then show ?thesis using assms check_artifacts_facts [of w env dir]
    by (auto simp: create_import_def assert_lxdProvider_def Let_def)
next
  case (Provider p)
  let ?w2 = "check_artifacts env dir w"
  note c2 = check_artifacts_facts [of w env dir]
  show ?thesis
  proof (cases "GetContainerServer p (selectRemote p d)")
    case (Inl err)
    then show ?thesis using assms Provider c2
      by (auto simp: create_import_def assert_lxdProvider_def Let_def)
  next
    case (Inr srv)
    obtain fe w3 where f: "lookup_fingerprint srv (selectRemote p d) d ?w2 = (fe, w3)"
      by (cases "lookup_fingerprint srv (selectRemote p d) d ?w2") auto
    have c3: "creates_nothing w w3"
      using c2 lookup_fingerprint_facts [OF f] by (rule creates_nothing_trans)
    show ?thesis
    proof (cases fe)
      case (Some err)
      then show ?thesis using assms Provider Inr f c3
        by (auto simp: create_import_def assert_lxdProvider_def Let_def)
    next
      case None
      obtain cr w4 where q: "requested_aliases srv d w3 = (cr, w4)"
        by (cases "requested_aliases srv d w3") auto
      have c4: "creates_nothing w w4"
        using c3 requested_aliases_facts [OF q] by (rule creates_nothing_trans)
      show ?thesis
      proof (cases cr)
        case (Inl err)
        then show ?thesis using assms Provider Inr f None q c4
          by (auto simp: create_import_def assert_lxdProvider_def Let_def)
      next
        case al: (Inr al)
        have t: "create_transfer env srv (selectRemote p d) (Join dir ''lxd.tar.xz'')
            (Join dir ''rootfs.squashfs'') al d m deferred w4 = (r, d', deferred', w')"
          using assms Provider Inr f None q al
          by (auto simp: create_import_def assert_lxdProvider_def Let_def)
        from create_transfer_facts [OF t] have
          "d' = d" "r \<noteq> Return None" "deferred' = deferred" "creates_nothing w4 w'"
          by blast+
        moreover have "creates_nothing w w'"
          using c4 \<open>creates_nothing w4 w'\<close> by (rule creates_nothing_trans)
        ultimately show ?thesis by blast
      qed
    qed
  qed
qed

lemma Create_facts:
  assumes "resourceLxdBuiltImageCreate env d m w = (r, d', w')"
  shows "d' = d \<and> r \<noteq> Return None \<and> creates_nothing w w'"
proof -
  obtain br dir deferred w1 where b: "create_build env d w = (br, dir, deferred, w1)"
    by (cases "create_build env d w") auto
  from create_build_facts [OF b] have
    b1: "creates_nothing w w1" and b2: "\<forall>ev \<in> set deferred. \<not> is_creation ev"
    by blast+
  show ?thesis
  proof (cases br)
    case (Some err)
    then have e: "r = Return (Some err)" "d' = d" "w' = run_deferred deferred w1"
      using assms b by (auto simp: resourceLxdBuiltImageCreate_def)
    have "creates_nothing w w'"
      unfolding e using b1 creates_nothing_deferred [OF b2] by (rule creates_nothing_trans)
    then show ?thesis using e by simp
  next
    case None
    obtain r2 d2 deferred2 w2 where
      i: "create_import env dir d m deferred w1 = (r2, d2, deferred2, w2)"
      by (cases "create_import env dir d m deferred w1") auto
    from create_import_facts [OF i] have
      c: "d2 = d" "r2 \<noteq> Return None" "deferred2 = deferred" "creates_nothing w1 w2"
      by blast+
    have e: "r = r2" "d' = d2" "w' = run_deferred deferred2 w2"
      using assms b None i by (auto simp: resourceLxdBuiltImageCreate_def)
    have "creates_nothing w w2" using b1 c(4) by (rule creates_nothing_trans)
    then have "creates_nothing w w'"
      unfolding e c(3) using creates_nothing_deferred [OF b2] by (rule creates_nothing_trans)
    then show ?thesis using e c by simp
  qed
qed

section \<open>Create: a requested alias that the store already has\<close>

lemma lookup_fingerprint_ok:
  "d_fingerprint d = '''' \<or> (\<exists>img. GetImage srv (d_fingerprint d) (store w) = Inr img) \<Longrightarrow>
     fst (lookup_fingerprint srv dstName d w) = None"
  by (auto simp: lookup_fingerprint_def call_GetImage_def)

text \<open>
  Claim C7. When the build has succeeded, the provider has given a client and the lookup
  of a fingerprint already set (if any) has succeeded, a Create whose requested aliases
  hold a name that the store already has returns the alias-conflict error, naming the first
  such alias; it leaves the resource data and the store as they were and has issued no
  image-create and no alias-create call. Update never looks an alias up on the store:
  the check is made at creation only.
\<close>

theorem Create_alias_conflict:
  "(create_build env d w = (None, dir, deferred, w1) \<and>
    GetContainerServer p (selectRemote p d) = Inr srv \<and>
    (d_fingerprint d = '''' \<or> (\<exists>img. GetImage srv (d_fingerprint d) (store w) = Inr img)) \<and>
    find (\<lambda>a. fst (GetImageAlias srv a (store w)) \<noteq> None) (d_aliases d) = Some a \<and>
    resourceLxdBuiltImageCreate env d (Provider p) w = (r, d', w') \<longrightarrow>
      r = Return (Some (''Image alias already exists on destination: '' @ a)) \<and>
      d' = d \<and> creates_nothing w w') \<and>
   (\<forall>n. Call_GetImageAlias n \<notin> set (issued v (snd (resourceLxdBuiltImageUpdate h u m v))))"
proof (intro conjI impI allI)
  assume h: "create_build env d w = (None, dir, deferred, w1) \<and>
    GetContainerServer p (selectRemote p d) = Inr srv \<and>
    (d_fingerprint d = '''' \<or> (\<exists>img. GetImage srv (d_fingerprint d) (store w) = Inr img)) \<and>
    find (\<lambda>a. fst (GetImageAlias srv a (store w)) \<noteq> None) (d_aliases d) = Some a \<and>
    resourceLxdBuiltImageCreate env d (Provider p) w = (r, d', w')"
  then have b: "create_build env d w = (None, dir, deferred, w1)"
    and g: "GetContainerServer p (selectRemote p d) = Inr srv"
    and fp: "d_fingerprint d = '''' \<or> (\<exists>img. GetImage srv (d_fingerprint d) (store w) = Inr img)"
    and f: "find (\<lambda>a. fst (GetImageAlias srv a (store w)) \<noteq> None) (d_aliases d) = Some a"
    and c: "resourceLxdBuiltImageCreate env d (Provider p) w = (r, d', w')"
    by blast+
  from Create_facts [OF c] show "d' = d" and "creates_nothing w w'" by blast+
  let ?w2 = "check_artifacts env dir w1"
  have s1: "store w1 = store w"
    using create_build_facts [OF b] by (simp add: creates_nothing_def)
  have s2: "store ?w2 = store w"
    using check_artifacts_facts [of w1 env dir] s1 by (simp add: creates_nothing_def)
  obtain fe w3 where l: "lookup_fingerprint srv (selectRemote p d) d ?w2 = (fe, w3)"
    by (cases "lookup_fingerprint srv (selectRemote p d) d ?w2") auto
  have fe: "fe = None"
    using lookup_fingerprint_ok [of d srv ?w2 "selectRemote p d"] fp l s2 by simp
  have s3: "store w3 = store w"
    using lookup_fingerprint_facts [OF l] s2 by (simp add: creates_nothing_def)
  have ne: "d_aliases d \<noteq> []" using f by auto
  obtain cr w4 where q: "requested_aliases srv d w3 = (cr, w4)"
    by (cases "requested_aliases srv d w3") auto
  have cr: "cr = Inl (''Image alias already exists on destination: '' @ a)"
    using checkAliases_conflict [of srv w3 "d_aliases d" a "[]"] f s3 q ne
    by (simp add: requested_aliases_def)
  have "create_import env dir d (Provider p) deferred w1 =
      (Return (Some (''Image alias already exists on destination: '' @ a)), d, deferred, w4)"
    using g l fe q cr by (simp add: create_import_def assert_lxdProvider_def Let_def)
  then show "r = Return (Some (''Image alias already exists on destination: '' @ a))"
    using c b by (simp add: resourceLxdBuiltImageCreate_def)
next
  fix n
  obtain r w' where x: "resourceLxdBuiltImageUpdate h u m v = (r, w')"
    by (cases "resourceLxdBuiltImageUpdate h u m v") auto
  from Update_trace [OF x] obtain evs where
    "trace w' = trace v @ evs" "\<forall>n. Call_GetImageAlias n \<notin> set evs"
    by blast
  then show "Call_GetImageAlias n \<notin> set (issued v (snd (resourceLxdBuiltImageUpdate h u m v)))"
    unfolding x by (simp add: issued_append)
qed

lemma build_example_good:
  "create_build goodBuild (newResource names) w =
     (None, ''/tmp/distrobuilder1'',
      [Os_Remove ''/tmp/distrobuilder1/distrobuilder2'', Os_RemoveAll ''/tmp/distrobuilder1''],
      emit (Cmd_Start [''sudo'', ''distrobuilder'', ''build-lxd'',
                       ''/tmp/distrobuilder1/distrobuilder.yaml''])
        (emit (Os_WriteFile ''/tmp/distrobuilder1/distrobuilder.yaml''
                 ''image: {distribution: ubuntu}'') w))"
  by (simp add: create_build_def goodBuild_def newResource_def Join_def Let_def)

lemma Create_example_conflict:
  "resourceLxdBuiltImageCreate goodBuild (newResource [''api'', ''web''])
     (Provider simpleProvider) (storeWith [\<lparr>Name = ''web'', Target = ''beef''\<rparr>]) =
   (Return (Some ''Image alias already exists on destination: web''),
    newResource [''api'', ''web''],
    \<lparr>store = \<lparr>images = [(''f00d'', 7)], alias_table = [\<lparr>Name = ''web'', Target = ''beef''\<rparr>]\<rparr>,
     trace = [Os_WriteFile ''/tmp/distrobuilder1/distrobuilder.yaml'' ''image: {distribution: ubuntu}'',
              Cmd_Start [''sudo'', ''distrobuilder'', ''build-lxd'', ''/tmp/distrobuilder1/distrobuilder.yaml''],
              Call_GetImageAlias ''api'', Call_GetImageAlias ''web'',
              Os_Remove ''/tmp/distrobuilder1/distrobuilder2'',
              Os_RemoveAll ''/tmp/distrobuilder1'']\<rparr>)"
  by (simp add: resourceLxdBuiltImageCreate_def create_build_def create_import_def
      check_artifacts_def lookup_fingerprint_def requested_aliases_def call_GetImageAlias_def
      IsNotExist_def Join_def run_deferred_def
      assert_lxdProvider_def simpleProvider_def simpleStore_def goodBuild_def newResource_def
      storeWith_def emit_def Let_def)

theorem Create_alias_conflict_witness:
  "GetContainerServer simpleProvider (selectRemote simpleProvider (newResource [''api'', ''web''])) =
     Inr simpleStore \<and>
   d_fingerprint (newResource [''api'', ''web'']) = '''' \<and>
   find (\<lambda>a. fst (GetImageAlias simpleStore a
                    (store (storeWith [\<lparr>Name = ''web'', Target = ''beef''\<rparr>]))) \<noteq> None)
     [''api'', ''web''] = Some ''web'' \<and>
   resourceLxdBuiltImageCreate goodBuild (newResource [''api'', ''web''])
     (Provider simpleProvider) (storeWith [\<lparr>Name = ''web'', Target = ''beef''\<rparr>]) =
   (Return (Some ''Image alias already exists on destination: web''),
    newResource [''api'', ''web''],
    \<lparr>store = \<lparr>images = [(''f00d'', 7)], alias_table = [\<lparr>Name = ''web'', Target = ''beef''\<rparr>]\<rparr>,
     trace = [Os_WriteFile ''/tmp/distrobuilder1/distrobuilder.yaml'' ''image: {distribution: ubuntu}'',
              Cmd_Start [''sudo'', ''distrobuilder'', ''build-lxd'', ''/tmp/distrobuilder1/distrobuilder.yaml''],
              Call_GetImageAlias ''api'', Call_GetImageAlias ''web'',
              Os_Remove ''/tmp/distrobuilder1/distrobuilder2'',
              Os_RemoveAll ''/tmp/distrobuilder1'']\<rparr>) \<and>
   creates_nothing (storeWith [\<lparr>Name = ''web'', Target = ''beef''\<rparr>])
     (snd (snd (resourceLxdBuiltImageCreate goodBuild (newResource [''api'', ''web''])
        (Provider simpleProvider) (storeWith [\<lparr>Name = ''web'', Target = ''beef''\<rparr>])))) \<and>
   Call_GetImageAlias ''c'' \<notin> set (issued
     (storeWith [\<lparr>Name = ''bb'', Target = ''f00d''\<rparr>, \<lparr>Name = ''a'', Target = ''f00d''\<rparr>])
     (snd (resourceLxdBuiltImageUpdate (length :: string \<Rightarrow> nat) (resourceWith [''a'', ''bb''] [''c''])
        (Provider simpleProvider)
        (storeWith [\<lparr>Name = ''bb'', Target = ''f00d''\<rparr>, \<lparr>Name = ''a'', Target = ''f00d''\<rparr>]))))"
proof -
  let ?d = "newResource [''api'', ''web'']"
  let ?w = "storeWith [\<lparr>Name = ''web'', Target = ''beef''\<rparr>]"
  let ?v = "storeWith [\<lparr>Name = ''bb'', Target = ''f00d''\<rparr>, \<lparr>Name = ''a'', Target = ''f00d''\<rparr>]"
  let ?c = "resourceLxdBuiltImageCreate goodBuild ?d (Provider simpleProvider) ?w"
  have b: "create_build goodBuild ?d ?w =
     (None, ''/tmp/distrobuilder1'',
      [Os_Remove ''/tmp/distrobuilder1/distrobuilder2'', Os_RemoveAll ''/tmp/distrobuilder1''],
      emit (Cmd_Start [''sudo'', ''distrobuilder'', ''build-lxd'',
                       ''/tmp/distrobuilder1/distrobuilder.yaml''])
        (emit (Os_WriteFile ''/tmp/distrobuilder1/distrobuilder.yaml''
                 ''image: {distribution: ubuntu}'') ?w))"
    by (rule build_example_good)
  have g: "GetContainerServer simpleProvider (selectRemote simpleProvider ?d) = Inr simpleStore"
    by (simp add: simpleProvider_def)
  have fp: "d_fingerprint ?d = ''''" by (simp add: newResource_def)
  have f: "find (\<lambda>a. fst (GetImageAlias simpleStore a (store ?w)) \<noteq> None) (d_aliases ?d) =
      Some ''web''"
    by (simp add: simpleStore_def storeWith_def newResource_def)
  have c: "?c = (fst ?c, fst (snd ?c), snd (snd ?c))" by simp
  note t = Create_alias_conflict [where env = goodBuild and d = ?d and w = ?w
      and p = simpleProvider and srv = simpleStore and a = "''web''"
      and r = "fst ?c" and d' = "fst (snd ?c)" and w' = "snd (snd ?c)"
      and v = ?v and h = "length :: string \<Rightarrow> nat" and u = "resourceWith [''a'', ''bb''] [''c'']"
      and m = "Provider simpleProvider"]
  have r1: "creates_nothing ?w (snd (snd ?c))"
    using t b g fp f c by blast
  have r2: "Call_GetImageAlias ''c'' \<notin> set (issued ?v
     (snd (resourceLxdBuiltImageUpdate (length :: string \<Rightarrow> nat) (resourceWith [''a'', ''bb''] [''c''])
        (Provider simpleProvider) ?v)))"
    using t by blast
  have f': "find (\<lambda>a. fst (GetImageAlias simpleStore a (store ?w)) \<noteq> None) [''api'', ''web''] =
      Some ''web''"
    using f by (simp add: newResource_def)
  show ?thesis
    using g fp f' Create_example_conflict r1 r2 by (intro conjI)
qed

section \<open>Create: when the identity is set\<close>

lemma create_upload_cases:
  assumes q: "upload_request mf rf mr rr = (post, args)"
    and c: "create_upload srv dstName mf rf mr rr al u m deferred v = (r, u', deferred', v')"
  shows "(\<forall>e. fst (CreateImage srv post args (store v)) = Inl e \<longrightarrow> r = Return (Some e) \<and> u' = u) \<and>
      (\<forall>op e. fst (CreateImage srv post args (store v)) = Inr op \<and> op_Wait op = Some e \<longrightarrow>
          r = Return (Some e) \<and> u' = u) \<and>
      (\<forall>op fp e. fst (CreateImage srv post args (store v)) = Inr op \<and> op_Wait op = None \<and>
          op_fingerprint op = Some fp \<and> al \<noteq> [] \<and>
          fst (ensureImageAliases srv al fp (emit Op_Wait (snd (call_CreateImage srv post args v)))) = Some e \<longrightarrow>
          r = Return (Some e) \<and> u' = u) \<and>
      (d_Id u' \<noteq> d_Id u \<longrightarrow>
         (\<exists>op fp. fst (CreateImage srv post args (store v)) = Inr op \<and> op_Wait op = None \<and>
            op_fingerprint op = Some fp \<and>
            (al = [] \<or>
             fst (ensureImageAliases srv al fp (emit Op_Wait (snd (call_CreateImage srv post args v)))) = None)))"
proof -
  obtain cr w1 where ci: "call_CreateImage srv post args v = (cr, w1)"
    by (cases "call_CreateImage srv post args v") auto
  have cr: "fst (CreateImage srv post args (store v)) = cr"
    using ci by (auto simp: call_CreateImage_def split: prod.splits)
  show ?thesis
  proof (cases cr)
    case (Inl e)
    then have "r = Return (Some e)" "u' = u"
      using c q ci by (simp_all add: create_upload_def)
    then show ?thesis using cr Inl by simp
  next
    case (Inr op)
    show ?thesis
    proof (cases "op_Wait op")
      case (Some e)
      then have "r = Return (Some e)" "u' = u"
        using c q ci Inr by (simp_all add: create_upload_def)
      then show ?thesis using cr Inr Some by simp
    next
      case None
      show ?thesis
      proof (cases "op_fingerprint op")
        case nf: None
        then have "u' = u" using c q ci Inr None by (simp add: create_upload_def)
        then show ?thesis using cr Inr None nf by simp
      next
        case (Some fp)
        obtain er w2 where en: "(if length al > 0
            then ensureImageAliases srv al fp (emit Op_Wait w1)
            else (None, emit Op_Wait w1)) = (er, w2)"
          by (cases "(if length al > 0 then ensureImageAliases srv al fp (emit Op_Wait w1)
            else (None, emit Op_Wait w1))") auto
        show ?thesis
        proof (cases er)
          case se: (Some e)
          then have "r = Return (Some e)" "u' = u"
            using c q ci Inr None Some en by (simp_all add: create_upload_def)
          moreover have "al \<noteq> []" using en se by (auto split: if_splits)
          moreover have "fst (ensureImageAliases srv al fp (emit Op_Wait w1)) = Some e"
            using en se \<open>al \<noteq> []\<close> by simp
          ultimately show ?thesis using cr Inr None Some ci by simp
        next
          case ne: None
          have "al = [] \<or> fst (ensureImageAliases srv al fp (emit Op_Wait w1)) = None"
            using en ne by (auto split: if_splits)
          then show ?thesis using cr Inr None Some ci by auto
        qed
      qed
    qed
  qed
qed

text \<open>
  Claim C9. A Create that does not return nil leaves the resource data, the identity
  included, as it was; a failure of the build is returned as it is. The identity is set at
  one place, in the code of lines 203-234, after the image-create call, the wait for its
  operation and the alias reconciliation: there, a failed image-create call, a failed wait
  and a failed alias reconciliation each return their error with the resource data
  untouched, and whenever the identity has changed the image-create call and the wait had
  succeeded, the fingerprint was there and the alias reconciliation (if any alias was
  requested) had returned no error. As lines 181-185 stand, Create itself ends before
  this code (see C4), so the second part is stated on \<open>create_upload\<close>, for any value of
  the two reader variables.
\<close>

theorem Create_identity_atomic:
  "(resourceLxdBuiltImageCreate env d m w = (r, d', w') \<and> r \<noteq> Return None \<longrightarrow> d' = d) \<and>
   (create_build env d w = (Some err, dir, deferred, w1) \<longrightarrow>
      fst (resourceLxdBuiltImageCreate env d m w) = Return (Some err)) \<and>
   (upload_request mf rf mr rr = (post, args) \<and>
    create_upload srv dstName mf rf mr rr al u m2 deferred2 v = (r2, u', deferred2', v') \<longrightarrow>
      (\<forall>e. fst (CreateImage srv post args (store v)) = Inl e \<longrightarrow> r2 = Return (Some e) \<and> u' = u) \<and>
      (\<forall>op e. fst (CreateImage srv post args (store v)) = Inr op \<and> op_Wait op = Some e \<longrightarrow>
          r2 = Return (Some e) \<and> u' = u) \<and>
      (\<forall>op fp e. fst (CreateImage srv post args (store v)) = Inr op \<and> op_Wait op = None \<and>
          op_fingerprint op = Some fp \<and> al \<noteq> [] \<and>
          fst (ensureImageAliases srv al fp (emit Op_Wait (snd (call_CreateImage srv post args v)))) = Some e \<longrightarrow>
          r2 = Return (Some e) \<and> u' = u) \<and>
      (d_Id u' \<noteq> d_Id u \<longrightarrow>
         (\<exists>op fp. fst (CreateImage srv post args (store v)) = Inr op \<and> op_Wait op = None \<and>
            op_fingerprint op = Some fp \<and>
            (al = [] \<or>
             fst (ensureImageAliases srv al fp (emit Op_Wait (snd (call_CreateImage srv post args v)))) = None))))"
proof -
  have p1: "resourceLxdBuiltImageCreate env d m w = (r, d', w') \<and> r \<noteq> Return None \<longrightarrow> d' = d"
  proof
    assume "resourceLxdBuiltImageCreate env d m w = (r, d', w') \<and> r \<noteq> Return None"
    then have "resourceLxdBuiltImageCreate env d m w = (r, d', w')" by (rule conjunct1)
    from Create_facts [OF this] show "d' = d" by (rule conjunct1)
  qed
  have p2: "create_build env d w = (Some err, dir, deferred, w1) \<longrightarrow>
      fst (resourceLxdBuiltImageCreate env d m w) = Return (Some err)"
    by (simp add: resourceLxdBuiltImageCreate_def)
  have p3: "upload_request mf rf mr rr = (post, args) \<and>
    create_upload srv dstName mf rf mr rr al u m2 deferred2 v = (r2, u', deferred2', v') \<longrightarrow>
      (\<forall>e. fst (CreateImage srv post args (store v)) = Inl e \<longrightarrow> r2 = Return (Some e) \<and> u' = u) \<and>
      (\<forall>op e. fst (CreateImage srv post args (store v)) = Inr op \<and> op_Wait op = Some e \<longrightarrow>
          r2 = Return (Some e) \<and> u' = u) \<and>
      (\<forall>op fp e. fst (CreateImage srv post args (store v)) = Inr op \<and> op_Wait op = None \<and>
          op_fingerprint op = Some fp \<and> al \<noteq> [] \<and>
          fst (ensureImageAliases srv al fp (emit Op_Wait (snd (call_CreateImage srv post args v)))) = Some e \<longrightarrow>
          r2 = Return (Some e) \<and> u' = u) \<and>
      (d_Id u' \<noteq> d_Id u \<longrightarrow>
         (\<exists>op fp. fst (CreateImage srv post args (store v)) = Inr op \<and> op_Wait op = None \<and>
            op_fingerprint op = Some fp \<and>
            (al = [] \<or>
             fst (ensureImageAliases srv al fp (emit Op_Wait (snd (call_CreateImage srv post args v)))) = None)))"
  proof
    assume h: "upload_request mf rf mr rr = (post, args) \<and>
      create_upload srv dstName mf rf mr rr al u m2 deferred2 v = (r2, u', deferred2', v')"
    from h have q: "upload_request mf rf mr rr = (post, args)" by (rule conjunct1)
    from h have c: "create_upload srv dstName mf rf mr rr al u m2 deferred2 v =
        (r2, u', deferred2', v')" by (rule conjunct2)
    show "(\<forall>e. fst (CreateImage srv post args (store v)) = Inl e \<longrightarrow> r2 = Return (Some e) \<and> u' = u) \<and>
      (\<forall>op e. fst (CreateImage srv post args (store v)) = Inr op \<and> op_Wait op = Some e \<longrightarrow>
          r2 = Return (Some e) \<and> u' = u) \<and>
      (\<forall>op fp e. fst (CreateImage srv post args (store v)) = Inr op \<and> op_Wait op = None \<and>
          op_fingerprint op = Some fp \<and> al \<noteq> [] \<and>
          fst (ensureImageAliases srv al fp (emit Op_Wait (snd (call_CreateImage srv post args v)))) = Some e \<longrightarrow>
          r2 = Return (Some e) \<and> u' = u) \<and>
      (d_Id u' \<noteq> d_Id u \<longrightarrow>
         (\<exists>op fp. fst (CreateImage srv post args (store v)) = Inr op \<and> op_Wait op = None \<and>
            op_fingerprint op = Some fp \<and>
            (al = [] \<or>
             fst (ensureImageAliases srv al fp (emit Op_Wait (snd (call_CreateImage srv post args v)))) = None)))"
      by (rule create_upload_cases [OF q c])
  qed
  show ?thesis by (rule conjI [OF p1 conjI [OF p2 p3]])
qed

lemma Create_example_failedBuild:
  "resourceLxdBuiltImageCreate failedBuild (newResource [''web'']) (Provider simpleProvider)
     (storeWith []) =
   (Return (Some ''exit status 1''), newResource [''web''],
    \<lparr>store = \<lparr>images = [(''f00d'', 7)], alias_table = []\<rparr>,
     trace = [Os_WriteFile ''/tmp/distrobuilder1/distrobuilder.yaml'' ''image: {distribution: ubuntu}'',
              Cmd_Start [''sudo'', ''distrobuilder'', ''build-lxd'', ''/tmp/distrobuilder1/distrobuilder.yaml''],
              Log ''[ERROR] Error waiting for distrobuilder'',
              Os_Remove ''/tmp/distrobuilder1/distrobuilder2'',
              Os_RemoveAll ''/tmp/distrobuilder1'']\<rparr>)"
  by (simp add: resourceLxdBuiltImageCreate_def create_build_def failedBuild_def goodBuild_def
      Join_def run_deferred_def newResource_def storeWith_def emit_def Let_def)

lemma upload_example_request:
  "upload_request ''/t/lxd.tar.xz'' ''/t/rootfs.squashfs'' (Some ''/t/lxd.tar.xz'')
     (Some ''/t/rootfs.squashfs'') =
   (\<lparr>Filename = ''lxd.tar.xz''\<rparr>,
    \<lparr>MetaFile = Some ''/t/lxd.tar.xz'', MetaName = ''lxd.tar.xz'',
     RootfsFile = Some ''/t/rootfs.squashfs'', RootfsName = ''rootfs.squashfs''\<rparr>)"
  by (simp add: upload_request_def Base_def Let_def)

lemma upload_example_rejected:
  "create_upload rejectingStore ''local'' ''/t/lxd.tar.xz'' ''/t/rootfs.squashfs''
     (Some ''/t/lxd.tar.xz'') (Some ''/t/rootfs.squashfs'') [\<lparr>Name = ''web''\<rparr>]
     (newResource [''web'']) (Provider simpleProvider) []
     \<lparr>store = \<lparr>images = [], alias_table = []\<rparr>, trace = []\<rparr> =
   (Return (Some ''rejected''), newResource [''web''], [],
    \<lparr>store = \<lparr>images = [], alias_table = []\<rparr>,
     trace = [Call_CreateImage (Some ''/t/lxd.tar.xz'') (Some ''/t/rootfs.squashfs'')]\<rparr>)"
  by (simp add: create_upload_def upload_example_request call_CreateImage_def rejectingStore_def
      simpleStore_def)

lemma upload_example_ok:
  "create_upload simpleStore ''local'' ''/t/lxd.tar.xz'' ''/t/rootfs.squashfs''
     (Some ''/t/lxd.tar.xz'') (Some ''/t/rootfs.squashfs'') [\<lparr>Name = ''web''\<rparr>]
     (newResource [''web'']) (Provider simpleProvider) []
     \<lparr>store = \<lparr>images = [], alias_table = []\<rparr>, trace = []\<rparr> =
   (Return None,
    (newResource [''web''])\<lparr>d_Id := ''local/f00d'', d_fingerprint := ''f00d''\<rparr>, [],
    \<lparr>store = \<lparr>images = [(''f00d'', 0)], alias_table = [\<lparr>Name = ''web'', Target = ''f00d''\<rparr>]\<rparr>,
     trace = [Call_CreateImage (Some ''/t/lxd.tar.xz'') (Some ''/t/rootfs.squashfs''),
              Op_Wait, Call_GetImageAliases, Call_CreateImageAlias ''web'' ''f00d'' None,
              Call_GetImage ''f00d'']\<rparr>)"
  by (simp add: create_upload_def upload_example_request call_CreateImage_def
      ensureImageAliases_def GetExistingAliases_sorted call_GetImageAliases_def
      call_CreateImageAlias_def call_DeleteImageAlias_def newbuiltImageID_def resourceID_def
      resourceLxdBuiltImageRead_def assert_lxdProvider_def parse_slash call_GetImage_def
      NewSet_def Contains_def simpleProvider_def simpleStore_def newResource_def emit_def)

theorem Create_identity_atomic_witness:
  "resourceLxdBuiltImageCreate failedBuild (newResource [''web'']) (Provider simpleProvider)
     (storeWith []) =
   (Return (Some ''exit status 1''), newResource [''web''],
    \<lparr>store = \<lparr>images = [(''f00d'', 7)], alias_table = []\<rparr>,
     trace = [Os_WriteFile ''/tmp/distrobuilder1/distrobuilder.yaml'' ''image: {distribution: ubuntu}'',
              Cmd_Start [''sudo'', ''distrobuilder'', ''build-lxd'', ''/tmp/distrobuilder1/distrobuilder.yaml''],
              Log ''[ERROR] Error waiting for distrobuilder'',
              Os_Remove ''/tmp/distrobuilder1/distrobuilder2'',
              Os_RemoveAll ''/tmp/distrobuilder1'']\<rparr>) \<and>
   fst (create_build failedBuild (newResource [''web'']) (storeWith [])) = Some ''exit status 1'' \<and>
   fst (CreateImage rejectingStore \<lparr>Filename = ''lxd.tar.xz''\<rparr>
     \<lparr>MetaFile = Some ''/t/lxd.tar.xz'', MetaName = ''lxd.tar.xz'',
      RootfsFile = Some ''/t/rootfs.squashfs'', RootfsName = ''rootfs.squashfs''\<rparr>
     \<lparr>images = [], alias_table = []\<rparr>) = Inl ''rejected'' \<and>
   fst (create_upload rejectingStore ''local'' ''/t/lxd.tar.xz'' ''/t/rootfs.squashfs''
     (Some ''/t/lxd.tar.xz'') (Some ''/t/rootfs.squashfs'') [\<lparr>Name = ''web''\<rparr>]
     (newResource [''web'']) (Provider simpleProvider) []
     \<lparr>store = \<lparr>images = [], alias_table = []\<rparr>, trace = []\<rparr>) = Return (Some ''rejected'') \<and>
   d_Id (fst (snd (create_upload simpleStore ''local'' ''/t/lxd.tar.xz'' ''/t/rootfs.squashfs''
     (Some ''/t/lxd.tar.xz'') (Some ''/t/rootfs.squashfs'') [\<lparr>Name = ''web''\<rparr>]
     (newResource [''web'']) (Provider simpleProvider) []
     \<lparr>store = \<lparr>images = [], alias_table = []\<rparr>, trace = []\<rparr>))) = ''local/f00d'' \<and>
   (\<exists>op fp. fst (CreateImage simpleStore \<lparr>Filename = ''lxd.tar.xz''\<rparr>
        \<lparr>MetaFile = Some ''/t/lxd.tar.xz'', MetaName = ''lxd.tar.xz'',
         RootfsFile = Some ''/t/rootfs.squashfs'', RootfsName = ''rootfs.squashfs''\<rparr>
        \<lparr>images = [], alias_table = []\<rparr>) = Inr op \<and>
      op_Wait op = None \<and> op_fingerprint op = Some fp)"
proof -
  let ?d = "newResource [''web'']"
  let ?w0 = "\<lparr>store = \<lparr>images = [], alias_table = []\<rparr>, trace = []\<rparr> :: store_state world"
  let ?post = "\<lparr>Filename = ''lxd.tar.xz''\<rparr>"
  let ?args = "\<lparr>MetaFile = Some ''/t/lxd.tar.xz'', MetaName = ''lxd.tar.xz'',
      RootfsFile = Some ''/t/rootfs.squashfs'', RootfsName = ''rootfs.squashfs''\<rparr>"
  let ?bw = "\<lparr>store = \<lparr>images = [(''f00d'', 7)], alias_table = []\<rparr>,
     trace = [Os_WriteFile ''/tmp/distrobuilder1/distrobuilder.yaml'' ''image: {distribution: ubuntu}'',
              Cmd_Start [''sudo'', ''distrobuilder'', ''build-lxd'', ''/tmp/distrobuilder1/distrobuilder.yaml''],
              Log ''[ERROR] Error waiting for distrobuilder'',
              Os_Remove ''/tmp/distrobuilder1/distrobuilder2'',
              Os_RemoveAll ''/tmp/distrobuilder1'']\<rparr>"
  let ?ok = "create_upload simpleStore ''local'' ''/t/lxd.tar.xz'' ''/t/rootfs.squashfs''
     (Some ''/t/lxd.tar.xz'') (Some ''/t/rootfs.squashfs'') [\<lparr>Name = ''web''\<rparr>]
     ?d (Provider simpleProvider) [] ?w0"
  let ?ko = "create_upload rejectingStore ''local'' ''/t/lxd.tar.xz'' ''/t/rootfs.squashfs''
     (Some ''/t/lxd.tar.xz'') (Some ''/t/rootfs.squashfs'') [\<lparr>Name = ''web''\<rparr>]
     ?d (Provider simpleProvider) [] ?w0"
  have q: "upload_request ''/t/lxd.tar.xz'' ''/t/rootfs.squashfs'' (Some ''/t/lxd.tar.xz'')
     (Some ''/t/rootfs.squashfs'') = (?post, ?args)"
    by (rule upload_example_request)
  have ko: "?ko = (fst ?ko, fst (snd ?ko), fst (snd (snd ?ko)), snd (snd (snd ?ko)))" by simp
  have ok: "?ok = (fst ?ok, fst (snd ?ok), fst (snd (snd ?ok)), snd (snd (snd ?ok)))" by simp
  have rej: "fst (CreateImage rejectingStore ?post ?args (store ?w0)) = Inl ''rejected''"
    by (simp add: rejectingStore_def simpleStore_def)
  have idok: "d_Id (fst (snd ?ok)) = ''local/f00d''"
    unfolding upload_example_ok by simp
  have ne: "d_Id (fst (snd ?ok)) \<noteq> d_Id ?d"
    unfolding idok by (simp add: newResource_def)
  note t1 = Create_identity_atomic [where env = failedBuild and d = ?d
      and m = "Provider simpleProvider" and w = "storeWith []"
      and r = "Return (Some ''exit status 1'')" and d' = ?d and w' = ?bw
      and mf = "''/t/lxd.tar.xz''" and rf = "''/t/rootfs.squashfs''"
      and mr = "Some ''/t/lxd.tar.xz''" and rr = "Some ''/t/rootfs.squashfs''"
      and post = ?post and args = ?args and srv = rejectingStore and dstName = "''local''"
      and al = "[\<lparr>Name = ''web''\<rparr>]" and u = ?d and ?m2.0 = "Provider simpleProvider"
      and ?deferred2.0 = "[]" and v = ?w0 and ?r2.0 = "fst ?ko" and u' = "fst (snd ?ko)"
      and deferred2' = "fst (snd (snd ?ko))" and v' = "snd (snd (snd ?ko))"]
  note t2 = Create_identity_atomic [where env = failedBuild and d = ?d
      and m = "Provider simpleProvider" and w = "storeWith []"
      and mf = "''/t/lxd.tar.xz''" and rf = "''/t/rootfs.squashfs''"
      and mr = "Some ''/t/lxd.tar.xz''" and rr = "Some ''/t/rootfs.squashfs''"
      and post = ?post and args = ?args and srv = simpleStore and dstName = "''local''"
      and al = "[\<lparr>Name = ''web''\<rparr>]" and u = ?d and ?m2.0 = "Provider simpleProvider"
      and ?deferred2.0 = "[]" and v = ?w0 and ?r2.0 = "fst ?ok" and u' = "fst (snd ?ok)"
      and deferred2' = "fst (snd (snd ?ok))" and v' = "snd (snd (snd ?ok))"]
  note k1 = t1 [THEN conjunct2, THEN conjunct2, THEN mp, OF conjI [OF q ko]]
  note a0 = k1 [THEN conjunct1, THEN spec, THEN mp, OF rej]
  have a: "fst ?ko = Return (Some ''rejected'')"
    by (rule a0 [THEN conjunct1])
  note k2 = t2 [THEN conjunct2, THEN conjunct2, THEN mp, OF conjI [OF q ok]]
  note b0 = k2 [THEN conjunct2, THEN conjunct2, THEN conjunct2, THEN mp, OF ne]
  from b0 obtain op fp where o: "fst (CreateImage simpleStore ?post ?args (store ?w0)) = Inr op"
    "op_Wait op = None" "op_fingerprint op = Some fp"
    by (elim exE conjE)
  have b: "\<exists>op fp. fst (CreateImage simpleStore ?post ?args (store ?w0)) = Inr op \<and>
      op_Wait op = None \<and> op_fingerprint op = Some fp"
    using o by (intro exI conjI)
  have c: "fst (create_build failedBuild ?d (storeWith [])) = Some ''exit status 1''"
    by (simp add: create_build_def failedBuild_def goodBuild_def Let_def)
  show ?thesis
    using Create_example_failedBuild c rej a idok b by simp
qed

section \<open>Create: the artifacts of the build and their handles\<close>

text \<open>
  Claim C2 at two builds that end well with one artifact missing. Without the filesystem
  image, neither check of lines 121-130 sees anything (both look at the metadata
  archive): nothing is logged, no error is returned, Create goes on to the store and to
  opening the metadata archive, and ends in the panic of line 185. Without the metadata
  archive, both messages are logged and Create goes on all the same: here it then returns
  the alias-conflict error of line 162, not an error about the artifact.
\<close>

theorem Create_missing_artifact_goes_on:
  "resourceLxdBuiltImageCreate buildWithoutRootfs (newResource []) (Provider simpleProvider)
     (storeWith []) =
   (Panic ''invalid memory address or nil pointer dereference'', newResource [],
    \<lparr>store = \<lparr>images = [(''f00d'', 7)], alias_table = []\<rparr>,
     trace = [Os_WriteFile ''/tmp/distrobuilder1/distrobuilder.yaml'' ''image: {distribution: ubuntu}'',
              Cmd_Start [''sudo'', ''distrobuilder'', ''build-lxd'', ''/tmp/distrobuilder1/distrobuilder.yaml''],
              Os_Open ''/tmp/distrobuilder1/lxd.tar.xz'',
              Os_Remove ''/tmp/distrobuilder1/distrobuilder2'',
              Os_RemoveAll ''/tmp/distrobuilder1'']\<rparr>) \<and>
   resourceLxdBuiltImageCreate buildWithoutMeta (newResource [''web'']) (Provider simpleProvider)
     (storeWith [\<lparr>Name = ''web'', Target = ''beef''\<rparr>]) =
   (Return (Some ''Image alias already exists on destination: web''), newResource [''web''],
    \<lparr>store = \<lparr>images = [(''f00d'', 7)], alias_table = [\<lparr>Name = ''web'', Target = ''beef''\<rparr>]\<rparr>,
     trace = [Os_WriteFile ''/tmp/distrobuilder1/distrobuilder.yaml'' ''image: {distribution: ubuntu}'',
              Cmd_Start [''sudo'', ''distrobuilder'', ''build-lxd'', ''/tmp/distrobuilder1/distrobuilder.yaml''],
              Log ''[ERROR] lxd.tar.xz not found at /tmp/distrobuilder1'',
              Log ''[ERROR] rootfs.squashfs not found at /tmp/distrobuilder1'',
              Call_GetImageAlias ''web'',
              Os_Remove ''/tmp/distrobuilder1/distrobuilder2'',
              Os_RemoveAll ''/tmp/distrobuilder1'']\<rparr>)"
  by (simp add: resourceLxdBuiltImageCreate_def create_build_def create_import_def
      check_artifacts_def lookup_fingerprint_def requested_aliases_def call_GetImageAlias_def
      create_transfer_def defer_Close_def os_Open_def IsNotExist_def Join_def run_deferred_def
      assert_lxdProvider_def simpleProvider_def simpleStore_def buildWithoutRootfs_def
      buildWithoutMeta_def goodBuild_def newResource_def storeWith_def emit_def Let_def)

text \<open>
  Claim C4 at a build that leaves both artifacts readable, with a store that would take
  the upload. The metadata archive is opened, its handle goes to \<^verbatim>\<open>meta\<close> and not to
  \<^verbatim>\<open>meta_reader\<close>, and the deferred close of line 185 is on the nil \<^verbatim>\<open>meta_reader\<close>:
  Create panics there. The opened handle is never closed, the filesystem image is never
  opened, and no image-create call is made.
\<close>

theorem Create_defers_close_on_nil_reader:
  "resourceLxdBuiltImageCreate goodBuild (newResource []) (Provider simpleProvider) (storeWith []) =
   (Panic ''invalid memory address or nil pointer dereference'', newResource [],
    \<lparr>store = \<lparr>images = [(''f00d'', 7)], alias_table = []\<rparr>,
     trace = [Os_WriteFile ''/tmp/distrobuilder1/distrobuilder.yaml'' ''image: {distribution: ubuntu}'',
              Cmd_Start [''sudo'', ''distrobuilder'', ''build-lxd'', ''/tmp/distrobuilder1/distrobuilder.yaml''],
              Os_Open ''/tmp/distrobuilder1/lxd.tar.xz'',
              Os_Remove ''/tmp/distrobuilder1/distrobuilder2'',
              Os_RemoveAll ''/tmp/distrobuilder1'']\<rparr>)"
  by (simp add: resourceLxdBuiltImageCreate_def create_build_def create_import_def
      check_artifacts_def lookup_fingerprint_def requested_aliases_def
      create_transfer_def defer_Close_def os_Open_def IsNotExist_def Join_def run_deferred_def
      assert_lxdProvider_def simpleProvider_def goodBuild_def newResource_def storeWith_def
      emit_def Let_def)

end
